theory Spec2Isabelle
  imports Complex_Main "HOL-Library.Multiset"
begin

section \<open>PPO for continuous actions: a model of \<^verbatim>\<open>ppo_continuous_action.py\<close>\<close>

text \<open>
  The program is a JAX training loop. Its arrays hold floating-point numbers; the model
  computes with the real numbers (no rounding), and reads a leading array axis as a
  list. The forward passes of the network are collaborators of the model, so nothing
  is assumed about how they round. Python names starting with an underscore lose it (\<^verbatim>\<open>_calculate_gae\<close> is
  \<open>calculate_gae\<close>), and the fields \<^verbatim>\<open>done\<close> and \<^verbatim>\<open>value\<close> of a transition are
  \<open>done_f\<close> and \<open>value_f\<close>.
\<close>

subsection \<open>Configuration\<close>

text \<open>
  The configuration is a dictionary of hyperparameters; \<^verbatim>\<open>make_train\<close> adds the two
  derived entries \<^verbatim>\<open>NUM_UPDATES\<close> and \<^verbatim>\<open>MINIBATCH_SIZE\<close>. The entries that only
  select an external collaborator (environment name, activation, optimizer and its
  moments, observation normalisation, seed) are not read by the functions below: the
  collaborators are parameters of the model.
\<close>

record config =
  TOTAL_TIMESTEPS :: int
  NUM_STEPS :: int
  NUM_ENVS :: int
  NUM_MINIBATCHES :: int
  UPDATE_EPOCHS :: int
  LR :: real
  ANNEAL_LR :: bool
  GAMMA :: real
  GAE_LAMBDA :: real
  CLIP_EPS :: real
  ENT_COEF :: real
  VF_COEF :: real
  TAU :: real
  DISABLE_JIT :: bool
  NUM_UPDATES :: int
  MINIBATCH_SIZE :: int

subsection \<open>Arrays and scans\<close>

text \<open>Elementwise arithmetic on one-dimensional arrays of equal length.\<close>

definition vadd :: "real list \<Rightarrow> real list \<Rightarrow> real list" where
  "vadd xs ys = map2 (+) xs ys"

definition vsub :: "real list \<Rightarrow> real list \<Rightarrow> real list" where
  "vsub xs ys = map2 (-) xs ys"

definition vmul :: "real list \<Rightarrow> real list \<Rightarrow> real list" where
  "vmul xs ys = map2 (*) xs ys"

definition smul :: "real \<Rightarrow> real list \<Rightarrow> real list" where
  "smul c xs = map ((*) c) xs"

text \<open>\<^verbatim>\<open>1 - done\<close>: a flag counts as 1 when set and as 0 otherwise.\<close>

definition one_minus :: "bool list \<Rightarrow> real list" where
  "one_minus ds = map (\<lambda>d. 1 - of_bool d) ds"

definition zeros_like :: "real list \<Rightarrow> real list" where
  "zeros_like xs = map (\<lambda>_. 0) xs"

text \<open>
  \<^verbatim>\<open>jax.lax.scan(f, init, xs)\<close> threads a carry through the slices of \<open>xs\<close> along the
  leading axis and stacks the per-slice outputs. With \<^verbatim>\<open>reverse=True\<close> the slices are
  visited last to first and each output stays at the position of its slice. With
  \<^verbatim>\<open>xs=None\<close> and a length the body runs that many times on no input.
\<close>

fun scan :: "('c \<Rightarrow> 'x \<Rightarrow> 'c \<times> 'y) \<Rightarrow> 'c \<Rightarrow> 'x list \<Rightarrow> 'c \<times> 'y list" where
  "scan f c [] = (c, [])"
| "scan f c (x # xs) =
     (case f c x of (c', y) \<Rightarrow> (case scan f c' xs of (c'', ys) \<Rightarrow> (c'', y # ys)))"

definition scan_reverse :: "('c \<Rightarrow> 'x \<Rightarrow> 'c \<times> 'y) \<Rightarrow> 'c \<Rightarrow> 'x list \<Rightarrow> 'c \<times> 'y list" where
  "scan_reverse f c xs = (case scan f c (rev xs) of (c', ys) \<Rightarrow> (c', rev ys))"

definition scan_length :: "('c \<Rightarrow> unit \<Rightarrow> 'c \<times> 'y) \<Rightarrow> 'c \<Rightarrow> nat \<Rightarrow> 'c \<times> 'y list" where
  "scan_length f c n = scan f c (replicate n ())"

subsection \<open>Transitions\<close>

text \<open>
  \<^verbatim>\<open>Transition\<close> is a named tuple of seven arrays. Its fields change shape along the
  pipeline (one value per environment in a rollout step, one per sample in a flattened
  batch, a single value inside the per-sample loss), so the field types are parameters.
\<close>

datatype ('d, 'a, 'v, 'r, 'l, 'o, 'i) Transition =
  Transition (done_f: 'd) (action: 'a) (value_f: 'v) (reward: 'r) (log_prob: 'l)
    (obs: 'o) (info: 'i)

text \<open>A transition whose fields have one leading axis (environments, or samples).\<close>

type_synonym ('a, 'o, 'i) transitions =
  "(bool list, 'a list, real list, real list, real list, 'o list, 'i list) Transition"

text \<open>A transition of one sample.\<close>

type_synonym ('a, 'o, 'i) sample = "(bool, 'a, real, real, real, 'o, 'i) Transition"

subsection \<open>Generalised advantage estimation\<close>

text \<open>
  \<^verbatim>\<open>_get_advantages\<close> is the body of the backward scan: the carry is the advantage and
  the value of the step after the current one.
\<close>

definition get_advantages ::
  "config \<Rightarrow> real list \<times> real list \<Rightarrow> ('a, 'o, 'i) transitions
    \<Rightarrow> (real list \<times> real list) \<times> real list" where
  "get_advantages cfg gae_and_next_value transition =
     (case gae_and_next_value of (gae, next_value) \<Rightarrow>
        let delta = vsub (vadd (reward transition)
                      (vmul (smul (GAMMA cfg) next_value) (one_minus (done_f transition))))
                      (value_f transition);
            gae' = vadd delta
                      (vmul (smul (GAMMA cfg * GAE_LAMBDA cfg) (one_minus (done_f transition))) gae)
        in ((gae', value_f transition), gae'))"

definition calculate_gae ::
  "config \<Rightarrow> ('a, 'o, 'i) transitions list \<Rightarrow> real list
    \<Rightarrow> real list list \<times> real list list" where
  "calculate_gae cfg traj_batch last_val =
     (case scan_reverse (get_advantages cfg) (zeros_like last_val, last_val) traj_batch of
        (_, advantages) \<Rightarrow> (advantages, map2 vadd advantages (map value_f traj_batch)))"

text \<open>
  Every array of a rollout step has one entry per environment: \<open>shaped n\<close> says so for
  the three fields the estimator reads.
\<close>

definition shaped :: "nat \<Rightarrow> ('a, 'o, 'i) transitions \<Rightarrow> bool" where
  "shaped n tr = (length (done_f tr) = n \<and> length (value_f tr) = n \<and> length (reward tr) = n)"

subsection \<open>Derived configuration and the learning-rate schedule\<close>

text \<open>
  The failures of a run. \<open>ValueError\<close> is what \<^verbatim>\<open>jax.lax.scan\<close> raises on a scan of
  length zero when \<^verbatim>\<open>jit\<close> is disabled. \<open>JaxError\<close> stands for the exception JAX raises
  when it is given a negative length or size, or a shape an array cannot be reshaped
  to; its Python class depends on the operation and is not modelled.
\<close>

datatype error = ZeroDivisionError | AssertionError | ValueError | JaxError

text \<open>
  \<^verbatim>\<open>make_train\<close> completes the configuration and returns the \<^verbatim>\<open>train\<close> closure over
  it; the model returns the completed configuration. Python's \<^verbatim>\<open>//\<close> on integers
  rounds down, as \<open>div\<close> does on \<open>int\<close>, and raises on a zero divisor.
\<close>

definition make_train :: "config \<Rightarrow> error + config" where
  "make_train config =
     (if NUM_STEPS config = 0 then Inl ZeroDivisionError
      else if NUM_ENVS config = 0 then Inl ZeroDivisionError
      else if NUM_MINIBATCHES config = 0 then Inl ZeroDivisionError
      else Inr (config
        \<lparr>NUM_UPDATES := TOTAL_TIMESTEPS config div NUM_STEPS config div NUM_ENVS config,
         MINIBATCH_SIZE := NUM_ENVS config * NUM_STEPS config div NUM_MINIBATCHES config\<rparr>))"

text \<open>
  \<^verbatim>\<open>linear_schedule\<close> is called by the optimizer with its step count \<open>n\<close>, a
  non-negative integer array: \<^verbatim>\<open>//\<close> is floor division and \<^verbatim>\<open>/\<close> true division. Both divisors are
  positive whenever an optimizer step runs (there is no step when \<^verbatim>\<open>NUM_UPDATES\<close> or
  \<^verbatim>\<open>UPDATE_EPOCHS\<close> is zero, and \<^verbatim>\<open>make_train\<close> fails on zero minibatches).
\<close>

definition linear_schedule :: "config \<Rightarrow> nat \<Rightarrow> real" where
  "linear_schedule config n =
     (let frac = 1 - real_of_int (int n div (NUM_MINIBATCHES config * UPDATE_EPOCHS config))
                       / real_of_int (NUM_UPDATES config)
      in LR config * frac)"

text \<open>
  \<^verbatim>\<open>lr = linear_schedule if config["ANNEAL_LR"] else config["LR"]\<close>: the learning rate
  the optimizer uses at a step count.
\<close>

definition lr :: "config \<Rightarrow> nat \<Rightarrow> real" where
  "lr config n = (if ANNEAL_LR config then linear_schedule config n else LR config)"

subsection \<open>Instrumentation\<close>

text \<open>
  The two diagnostics divide by a mean that can be zero and compare the quotient with a
  threshold, so the special values of floating-point division matter to them. \<open>fval\<close>
  adds these to the reals: a finite value, the two infinities and not-a-number. Rounding
  is not modelled and zero has no sign: the zero divisors below are means of absolute
  values or of squares, so they are the positive zero.
\<close>

datatype fval = Fin real | PInf | NInf | NaN

fun fdiv :: "fval \<Rightarrow> fval \<Rightarrow> fval" where
  "fdiv NaN _ = NaN"
| "fdiv _ NaN = NaN"
| "fdiv (Fin a) (Fin b) =
     (if b \<noteq> 0 then Fin (a / b) else if a = 0 then NaN else if 0 < a then PInf else NInf)"
| "fdiv (Fin a) PInf = Fin 0"
| "fdiv (Fin a) NInf = Fin 0"
| "fdiv PInf (Fin b) = (if 0 \<le> b then PInf else NInf)"
| "fdiv NInf (Fin b) = (if 0 \<le> b then NInf else PInf)"
| "fdiv PInf PInf = NaN"
| "fdiv PInf NInf = NaN"
| "fdiv NInf PInf = NaN"
| "fdiv NInf NInf = NaN"

text \<open>\<^verbatim>\<open>x <= t\<close> for a finite threshold: every comparison with not-a-number is false.\<close>

fun fle :: "fval \<Rightarrow> real \<Rightarrow> bool" where
  "fle (Fin a) t = (a \<le> t)"
| "fle PInf t = False"
| "fle NInf t = True"
| "fle NaN t = False"

fun is_finite :: "fval \<Rightarrow> bool" where
  "is_finite (Fin a) = True"
| "is_finite PInf = False"
| "is_finite NInf = False"
| "is_finite NaN = False"

text \<open>\<^verbatim>\<open>jnp.mean\<close> of finite entries: the sum over the number of entries.\<close>

definition jnp_mean :: "real list \<Rightarrow> fval" where
  "jnp_mean xs = fdiv (Fin (sum_list xs)) (Fin (real (length xs)))"

text \<open>
  An array of a diagnostic is a list of rows whose entries run along the trailing axis
  (neurons, or parameter slots); an array with the trailing axis only is one row.
  \<^verbatim>\<open>jax.vmap(f, in_axes=-1)\<close> calls \<open>f\<close> on each column, and the mean of a Boolean
  array counts \<^verbatim>\<open>True\<close> as 1.
\<close>

definition layer_dormancy :: "real \<Rightarrow> real list list \<Rightarrow> fval" where
  "layer_dormancy tau activations =
     (let activations = map (map abs) activations;
          layer_mean = jnp_mean (concat activations);
          batch_dormant = (\<lambda>activations. fle (fdiv (jnp_mean activations) layer_mean) tau);
          neuron_dormant = map batch_dormant (transpose activations)
      in jnp_mean (map of_bool neuron_dormant))"

text \<open>A tree of arrays (the dictionary of layers, the parameter tree) is the list of its leaves.\<close>

definition dormancy_rate :: "real list list list \<Rightarrow> real \<Rightarrow> fval list" where
  "dormancy_rate activations tau = map (layer_dormancy tau) activations"

definition threshold_leaf :: "real \<Rightarrow> real list list \<Rightarrow> fval" where
  "threshold_leaf zeta_abs grad_second_moment =
     (let gsm_mean = jnp_mean (concat grad_second_moment);
          batch_threshold = (\<lambda>grad_second_moment.
             fle (fdiv (jnp_mean grad_second_moment) gsm_mean) zeta_abs);
          threshold_gsm = map batch_threshold (transpose grad_second_moment)
      in jnp_mean (map of_bool threshold_gsm))"

text \<open>
  \<^verbatim>\<open>threshold_grad_second_moment(grad_second_moment, zeta_abs=0.1)\<close>: each leaf is
  reshaped to samples by slots. The only call leaves \<^verbatim>\<open>zeta_abs\<close> at its default.
\<close>

definition threshold_grad_second_moment :: "real list list list \<Rightarrow> real \<Rightarrow> fval list" where
  "threshold_grad_second_moment grad_second_moment zeta_abs =
     map (threshold_leaf zeta_abs) grad_second_moment"

subsection \<open>External collaborators\<close>

text \<open>
  The network, the action distribution, the environment, the pseudo-random generator,
  automatic differentiation and the optimizer are libraries: the model takes them as
  a record of functions and says nothing about what they compute.
  \<^item> \<open>network_apply params x\<close> is \<^verbatim>\<open>network.apply(params, x)\<close> on one observation,
    as the loss calls it under \<^verbatim>\<open>jax.vmap\<close>: the action distribution, the value and
    the activations of the layers. \<open>pi_log_prob\<close> and \<open>pi_entropy\<close> are those of the
    distribution of one observation.
  \<^item> \<open>network_apply_batch params xs\<close> is \<^verbatim>\<open>network.apply(params, xs)\<close> on the
    batch of the observations of all environments, as the rollout calls it: the
    distribution of the batch, one value per environment and the activations.
    \<open>pi_sample\<close> samples one action per environment from one key and
    \<open>pi_batch_log_prob\<close> gives the log-probability of each. In exact arithmetic the
    batched evaluation is the per-observation one row by row; in floating point the
    two can round differently, so they are two collaborators, related only where a
    hypothesis says so.
  \<^item> \<open>random_split\<close> is \<^verbatim>\<open>jax.random.split(rng)\<close>, \<open>random_split_n\<close> the split into
    \<open>n\<close> keys and \<open>random_permutation\<close> is \<^verbatim>\<open>jax.random.permutation(rng, n)\<close>.
  \<^item> \<open>grad f params\<close> is the gradient of \<open>f\<close> at \<open>params\<close>, a tree shaped like the
    parameters: the list of its leaves, each flattened.
  \<^item> \<open>tx_update rate grads opt_state params\<close> is one step of the chained
    transformation (clipping by global norm, then Adam or SGD at the learning rate
    \<open>rate\<close>) followed by \<^verbatim>\<open>optax.apply_updates\<close>.
\<close>

record ('o, 'a, 'd, 'b, 'k, 'es, 'i, 'p, 'os) collaborators =
  network_init :: "'k \<Rightarrow> 'p"
  network_apply :: "'p \<Rightarrow> 'o \<Rightarrow> 'd \<times> real \<times> real list list"
  network_apply_batch :: "'p \<Rightarrow> 'o list \<Rightarrow> 'b \<times> real list \<times> real list list list"
  pi_sample :: "'b \<Rightarrow> 'k \<Rightarrow> 'a list"
  pi_batch_log_prob :: "'b \<Rightarrow> 'a list \<Rightarrow> real list"
  pi_log_prob :: "'d \<Rightarrow> 'a \<Rightarrow> real"
  pi_entropy :: "'d \<Rightarrow> real"
  random_split :: "'k \<Rightarrow> 'k \<times> 'k"
  random_split_n :: "'k \<Rightarrow> nat \<Rightarrow> 'k list"
  random_permutation :: "'k \<Rightarrow> nat \<Rightarrow> nat list"
  vec_env_reset :: "'k list \<Rightarrow> 'o list \<times> 'es"
  vec_env_step :: "'k list \<Rightarrow> 'es \<Rightarrow> 'a list \<Rightarrow> 'o list \<times> 'es \<times> real list \<times> bool list \<times> 'i list"
  grad :: "('p \<Rightarrow> real) \<Rightarrow> 'p \<Rightarrow> real list list"
  tx_init :: "'p \<Rightarrow> 'os"
  tx_update :: "real \<Rightarrow> real list list \<Rightarrow> 'os \<Rightarrow> 'p \<Rightarrow> 'p \<times> 'os"

subsection \<open>Model state\<close>

text \<open>
  \<^verbatim>\<open>TrainState\<close> holds the step count, the parameters and the optimizer state. The
  optimizer keeps its own count for the schedule; it starts at 0 and grows by one with
  every \<^verbatim>\<open>apply_gradients\<close>, as \<open>step\<close> does, so the model reads the schedule at \<open>step\<close>.
\<close>

record ('p, 'os) TrainState =
  step :: nat
  params :: 'p
  opt_state :: 'os

definition create ::
  "('o, 'a, 'd, 'b, 'k, 'es, 'i, 'p, 'os) collaborators \<Rightarrow> 'p \<Rightarrow> ('p, 'os) TrainState" where
  "create ext network_params =
     \<lparr>step = 0, params = network_params, opt_state = tx_init ext network_params\<rparr>"

definition apply_gradients ::
  "config \<Rightarrow> ('o, 'a, 'd, 'b, 'k, 'es, 'i, 'p, 'os) collaborators \<Rightarrow> ('p, 'os) TrainState
    \<Rightarrow> real list list \<Rightarrow> ('p, 'os) TrainState" where
  "apply_gradients config ext train_state grads =
     (case tx_update ext (lr config (step train_state)) grads (opt_state train_state)
             (params train_state) of
        (new_params, new_opt_state) \<Rightarrow>
          \<lparr>step = step train_state + 1, params = new_params, opt_state = new_opt_state\<rparr>)"

type_synonym ('o, 'k, 'es, 'p, 'os) runner_state = "('p, 'os) TrainState \<times> 'es \<times> 'o list \<times> 'k"

subsection \<open>Runs\<close>

text \<open>
  A run is the list of the effects it executed, in order, and its outcome: an error or
  a result. The effects recorded are the initialisation of the network, the reset of
  the environments, each step of the vectorised environment and each optimizer step.
\<close>

datatype event = NetworkInit | EnvReset | EnvStep | ParamUpdate

type_synonym 'r run = "event list \<times> (error + 'r)"

text \<open>
  The loop of a scan whose body has effects and can fail: it runs the body on each
  slice in turn and stops at the first failure.
\<close>

fun scan_run :: "('c \<Rightarrow> 'x \<Rightarrow> ('c \<times> 'y) run) \<Rightarrow> 'c \<Rightarrow> 'x list \<Rightarrow> ('c \<times> 'y list) run" where
  "scan_run f c [] = ([], Inr (c, []))"
| "scan_run f c (x # xs) =
     (case f c x of
        (ev, Inl e) \<Rightarrow> (ev, Inl e)
      | (ev, Inr (c', y)) \<Rightarrow>
          (case scan_run f c' xs of
             (ev', Inl e) \<Rightarrow> (ev @ ev', Inl e)
           | (ev', Inr (c'', ys)) \<Rightarrow> (ev @ ev', Inr (c'', y # ys))))"

text \<open>
  \<^verbatim>\<open>jax.lax.scan\<close> as the driver calls it. When \<^verbatim>\<open>jit\<close> is disabled (\<open>eager\<close>) the
  scan is a Python loop that refuses a length of zero; a compiled scan of length zero
  returns its initial carry and no output. A negative length is rejected in both modes.
\<close>

definition lax_scan ::
  "bool \<Rightarrow> ('c \<Rightarrow> 'x \<Rightarrow> ('c \<times> 'y) run) \<Rightarrow> 'c \<Rightarrow> 'x list \<Rightarrow> ('c \<times> 'y list) run" where
  "lax_scan eager f init xs =
     (if eager \<and> xs = [] then ([], Inl ValueError) else scan_run f init xs)"

definition lax_scan_length ::
  "bool \<Rightarrow> ('c \<Rightarrow> unit \<Rightarrow> ('c \<times> 'y) run) \<Rightarrow> 'c \<Rightarrow> int \<Rightarrow> ('c \<times> 'y list) run" where
  "lax_scan_length eager f init n =
     (if n < 0 then ([], Inl JaxError) else lax_scan eager f init (replicate (nat n) ()))"

subsection \<open>Rollout collection\<close>

text \<open>
  One step of all environments. \<^verbatim>\<open>jax.random.split(_rng, NUM_ENVS)\<close> rejects a
  negative count; the step of the vectorised environment is the effect \<open>EnvStep\<close>.
\<close>

definition env_step ::
  "config \<Rightarrow> ('o, 'a, 'd, 'b, 'k, 'es, 'i, 'p, 'os) collaborators
    \<Rightarrow> ('o, 'k, 'es, 'p, 'os) runner_state \<Rightarrow> unit
    \<Rightarrow> (('o, 'k, 'es, 'p, 'os) runner_state \<times> ('a, 'o, 'i) transitions) run" where
  "env_step config ext runner_state unused =
     (case runner_state of (train_state, env_state, last_obs, rng) \<Rightarrow>
      case random_split ext rng of (rng, rng') \<Rightarrow>
      case network_apply_batch ext (params train_state) last_obs of (pi', val, _) \<Rightarrow>
      let act = pi_sample ext pi' rng';
          logp = pi_batch_log_prob ext pi' act
      in
      case random_split ext rng of (rng, rng') \<Rightarrow>
      if NUM_ENVS config < 0 then ([], Inl JaxError)
      else
        let rng_step = random_split_n ext rng' (nat (NUM_ENVS config)) in
        case vec_env_step ext rng_step env_state act of
          (obsv, env_state, rew, dones, infos) \<Rightarrow>
            let transition = Transition dones act val rew logp last_obs infos;
                runner_state = (train_state, env_state, obsv, rng)
            in ([EnvStep], Inr (runner_state, transition)))"

subsection \<open>The update engine\<close>

text \<open>
  \<^verbatim>\<open>x.mean()\<close> and \<^verbatim>\<open>x.std()\<close> (the population standard deviation) over an axis that
  is not empty; over an empty axis the functions below are never applied to an entry.
\<close>

definition mean :: "real list \<Rightarrow> real" where
  "mean xs = sum_list xs / real (length xs)"

definition std :: "real list \<Rightarrow> real" where
  "std xs = sqrt (mean (map (\<lambda>x. (x - mean xs)\<^sup>2) xs))"

text \<open>\<^verbatim>\<open>jnp.clip(x, lo, hi)\<close> is \<^verbatim>\<open>minimum(hi, maximum(x, lo))\<close>.\<close>

definition clip :: "real \<Rightarrow> real \<Rightarrow> real \<Rightarrow> real" where
  "clip x lo hi = min hi (max x lo)"

text \<open>
  \<^verbatim>\<open>_loss_fn\<close> runs under \<^verbatim>\<open>jax.vmap\<close> with \<^verbatim>\<open>in_axes=(None, 0, 0, 0)\<close>: each call
  sees one sample, so \<^verbatim>\<open>traj_batch\<close>, \<^verbatim>\<open>gae\<close> and \<^verbatim>\<open>targets\<close> have no batch axis and
  each \<^verbatim>\<open>.mean()\<close> is the mean of a single number. The activations of a layer are one
  row of neurons.
\<close>

definition loss_fn ::
  "config \<Rightarrow> ('o, 'a, 'd, 'b, 'k, 'es, 'i, 'p, 'os) collaborators \<Rightarrow> 'p \<Rightarrow> ('a, 'o, 'i) sample
    \<Rightarrow> real \<Rightarrow> real \<Rightarrow> real \<times> (real \<times> real \<times> real \<times> fval list)" where
  "loss_fn config ext prms traj_batch gae targets =
     (case network_apply ext prms (obs traj_batch) of (pi', val, activations) \<Rightarrow>
      let dormancies = dormancy_rate (map (\<lambda>a. [a]) activations) (TAU config);
          logp = pi_log_prob ext pi' (action traj_batch);
          value_pred_clipped = value_f traj_batch
            + clip (val - value_f traj_batch) (- CLIP_EPS config) (CLIP_EPS config);
          value_losses = (val - targets)\<^sup>2;
          value_losses_clipped = (value_pred_clipped - targets)\<^sup>2;
          value_loss = (1 / 2) * mean [max value_losses value_losses_clipped];
          ratio = exp (logp - log_prob traj_batch);
          loss_actor1 = ratio * gae;
          loss_actor2 = clip ratio (1 - CLIP_EPS config) (1 + CLIP_EPS config) * gae;
          loss_actor = - min loss_actor1 loss_actor2;
          loss_actor = mean [loss_actor];
          entropy = mean [pi_entropy ext pi'];
          total_loss = loss_actor + VF_COEF config * value_loss - ENT_COEF config * entropy
      in (total_loss, (value_loss, loss_actor, entropy, dormancies)))"

text \<open>The slice of a batch at one index of the leading axis, and all of them in order.\<close>

definition sample_at :: "('a, 'o, 'i) transitions \<Rightarrow> nat \<Rightarrow> ('a, 'o, 'i) sample" where
  "sample_at traj_batch i =
     map_Transition (\<lambda>x. x ! i) (\<lambda>x. x ! i) (\<lambda>x. x ! i) (\<lambda>x. x ! i) (\<lambda>x. x ! i) (\<lambda>x. x ! i)
       (\<lambda>x. x ! i) traj_batch"

definition unstack :: "('a, 'o, 'i) transitions \<Rightarrow> ('a, 'o, 'i) sample list" where
  "unstack traj_batch = map (sample_at traj_batch) [0..<length (done_f traj_batch)]"

type_synonym ('a, 'o, 'i) batch = "('a, 'o, 'i) transitions \<times> real list \<times> real list"

type_synonym minibatch_losses =
  "real list \<times> (real list \<times> real list \<times> real list \<times> fval list list \<times> fval list)"

text \<open>
  The gradients of a minibatch before the optimizer step: \<^verbatim>\<open>grad_fn\<close> is the per-sample
  \<^verbatim>\<open>value_and_grad\<close> of the first output of \<^verbatim>\<open>_loss_fn\<close>; \<^verbatim>\<open>jax.vmap\<close> stacks the
  per-sample outputs leaf by leaf.
\<close>

definition grad_fn ::
  "config \<Rightarrow> ('o, 'a, 'd, 'b, 'k, 'es, 'i, 'p, 'os) collaborators \<Rightarrow> 'p \<Rightarrow> ('a, 'o, 'i) transitions
    \<Rightarrow> real list \<Rightarrow> real list
    \<Rightarrow> (real list \<times> (real list \<times> real list \<times> real list \<times> fval list list)) \<times> real list list list" where
  "grad_fn config ext prms traj_batch advantages targets =
     (let per_sample = map (\<lambda>(s, gae, tgt).
             (loss_fn config ext prms s gae tgt,
              grad ext (\<lambda>p. fst (loss_fn config ext p s gae tgt)) prms))
           (zip (unstack traj_batch) (zip advantages targets));
          outs = map fst per_sample
      in ((map fst outs,
           (map (\<lambda>out. fst (snd out)) outs,
            map (\<lambda>out. fst (snd (snd out))) outs,
            map (\<lambda>out. fst (snd (snd (snd out)))) outs,
            transpose (map (\<lambda>out. snd (snd (snd (snd out)))) outs))),
          transpose (map snd per_sample)))"

definition update_minbatch ::
  "config \<Rightarrow> ('o, 'a, 'd, 'b, 'k, 'es, 'i, 'p, 'os) collaborators \<Rightarrow> ('p, 'os) TrainState
    \<Rightarrow> ('a, 'o, 'i) batch \<Rightarrow> ('p, 'os) TrainState \<times> minibatch_losses" where
  "update_minbatch config ext train_state batch_info =
     (case batch_info of (traj_batch, advantages, targets) \<Rightarrow>
      let advantages = map (\<lambda>a. (a - mean advantages) / (std advantages + 1 / 10 ^ 8)) advantages in
      case grad_fn config ext (params train_state) traj_batch advantages targets of
        (total_loss, grads) \<Rightarrow>
      let grad_second_moment = map (map (map (\<lambda>x. x\<^sup>2))) grads;
          threshold_gsm = threshold_grad_second_moment grad_second_moment (1 / 10);
          grads = map (\<lambda>x. map mean (transpose x)) grads;
          train_state = apply_gradients config ext train_state grads
      in case total_loss of (total_loss, value_loss, loss_actor, entropy, dormancies) \<Rightarrow>
           (train_state, (total_loss, (value_loss, loss_actor, entropy, dormancies, threshold_gsm))))"

subsection \<open>The minibatch scheduler\<close>

text \<open>
  The trajectory of an update step is the list of its rollout steps, each a transition
  of per-environment arrays, and the advantages and targets are lists of rows; a leaf
  of shape (steps, environments, ...) reshaped to \<^verbatim>\<open>(batch_size, ...)\<close> is the
  concatenation of its rows.
\<close>

definition flatten_traj :: "('a, 'o, 'i) transitions list \<Rightarrow> ('a, 'o, 'i) transitions" where
  "flatten_traj traj_batch =
     Transition (concat (map done_f traj_batch)) (concat (map action traj_batch))
       (concat (map value_f traj_batch)) (concat (map reward traj_batch))
       (concat (map log_prob traj_batch)) (concat (map obs traj_batch))
       (concat (map info traj_batch))"

text \<open>\<^verbatim>\<open>jnp.take(x, permutation, axis=0)\<close>: the entries of \<open>x\<close> at the given indices.\<close>

definition jnp_take :: "'x list \<Rightarrow> nat list \<Rightarrow> 'x list" where
  "jnp_take x permutation = map (\<lambda>i. x ! i) permutation"

text \<open>
  \<^verbatim>\<open>jnp.reshape(x, [m, -1] + ...)\<close>: \<open>m\<close> consecutive rows of equal length. The leading
  axis has \<^verbatim>\<open>MINIBATCH_SIZE * NUM_MINIBATCHES\<close> entries where it is called, a multiple
  of \<open>m\<close>.
\<close>

definition reshape_rows :: "nat \<Rightarrow> 'x list \<Rightarrow> 'x list list" where
  "reshape_rows m x = map (\<lambda>j. take (length x div m) (drop (j * (length x div m)) x)) [0..<m]"

text \<open>
  \<^verbatim>\<open>jax.tree_util.tree_map\<close> over the batch \<^verbatim>\<open>(traj_batch, advantages, targets)\<close>
  applies one function to each of its nine leaves.
\<close>

definition shuffle_batch :: "nat list \<Rightarrow> ('a, 'o, 'i) batch \<Rightarrow> ('a, 'o, 'i) batch" where
  "shuffle_batch permutation batch =
     (case batch of (traj_batch, advantages, targets) \<Rightarrow>
        (map_Transition (\<lambda>x. jnp_take x permutation) (\<lambda>x. jnp_take x permutation)
           (\<lambda>x. jnp_take x permutation) (\<lambda>x. jnp_take x permutation)
           (\<lambda>x. jnp_take x permutation) (\<lambda>x. jnp_take x permutation)
           (\<lambda>x. jnp_take x permutation) traj_batch,
         jnp_take advantages permutation, jnp_take targets permutation))"

text \<open>
  The leaves reshaped to \<open>m\<close> rows, as \<^verbatim>\<open>jax.lax.scan\<close> slices them: the list of the
  \<open>m\<close> minibatches.
\<close>

definition split_minibatches :: "nat \<Rightarrow> ('a, 'o, 'i) batch \<Rightarrow> ('a, 'o, 'i) batch list" where
  "split_minibatches m shuffled_batch =
     (case shuffled_batch of (traj_batch, advantages, targets) \<Rightarrow>
        map (\<lambda>j. (map_Transition (\<lambda>x. reshape_rows m x ! j) (\<lambda>x. reshape_rows m x ! j)
                     (\<lambda>x. reshape_rows m x ! j) (\<lambda>x. reshape_rows m x ! j)
                     (\<lambda>x. reshape_rows m x ! j) (\<lambda>x. reshape_rows m x ! j)
                     (\<lambda>x. reshape_rows m x ! j) traj_batch,
                   reshape_rows m advantages ! j, reshape_rows m targets ! j))
          [0..<m])"

subsection \<open>Epochs, update steps and the training driver\<close>

type_synonym ('a, 'o, 'i, 'k, 'p, 'os) update_state =
  "('p, 'os) TrainState \<times> ('a, 'o, 'i) transitions list \<times> real list list \<times> real list list \<times> 'k"

text \<open>
  One epoch. After the assertion, \<^verbatim>\<open>jax.random.permutation\<close> and the reshape to
  \<^verbatim>\<open>(batch_size, ...)\<close> reject a negative batch size and the reshape to
  \<^verbatim>\<open>[NUM_MINIBATCHES, -1, ...]\<close> rejects a minibatch count that is not positive. Each
  pass of \<open>update_minbatch\<close> in the scan over the minibatches is one optimizer step,
  the effect \<open>ParamUpdate\<close>.
\<close>

definition update_epoch ::
  "config \<Rightarrow> ('o, 'a, 'd, 'b, 'k, 'es, 'i, 'p, 'os) collaborators
    \<Rightarrow> ('a, 'o, 'i, 'k, 'p, 'os) update_state \<Rightarrow> unit
    \<Rightarrow> (('a, 'o, 'i, 'k, 'p, 'os) update_state \<times> minibatch_losses list) run" where
  "update_epoch config ext update_state unused =
     (case update_state of (train_state, traj_batch, advantages, targets, rng) \<Rightarrow>
      case random_split ext rng of (rng, rng') \<Rightarrow>
      let batch_size = MINIBATCH_SIZE config * NUM_MINIBATCHES config in
      if batch_size \<noteq> NUM_STEPS config * NUM_ENVS config then ([], Inl AssertionError)
      else if batch_size < 0 \<or> NUM_MINIBATCHES config \<le> 0 then ([], Inl JaxError)
      else
        let permutation = random_permutation ext rng' (nat batch_size);
            batch = (flatten_traj traj_batch, concat advantages, concat targets);
            shuffled_batch = shuffle_batch permutation batch;
            minibatches = split_minibatches (nat (NUM_MINIBATCHES config)) shuffled_batch
        in (case lax_scan (DISABLE_JIT config)
                   (\<lambda>train_state batch_info.
                      ([ParamUpdate], Inr (update_minbatch config ext train_state batch_info)))
                   train_state minibatches of
              (ev, Inl e) \<Rightarrow> (ev, Inl e)
            | (ev, Inr (train_state, total_loss)) \<Rightarrow>
                (ev, Inr ((train_state, traj_batch, advantages, targets, rng), total_loss))))"

text \<open>
  The metric of an update step: the \<^verbatim>\<open>info\<close> of the trajectory and, stacked over
  epochs and minibatches, the dormancies and the thresholded second moments. The
  logging callback under \<^verbatim>\<open>DEBUG\<close> only reads the metric and is left out.
\<close>

type_synonym 'i metric = "'i list list \<times> fval list list list list \<times> fval list list list"

text \<open>
  One update step: the rollout, the bootstrap value of the last observations (a batched
  application of the network), the advantages, and the scan over the epochs. The
  backward scan of the estimator runs over the trajectory of the rollout, which is not
  empty when \<^verbatim>\<open>jit\<close> is disabled (the rollout scan has failed otherwise).
\<close>

definition update_step ::
  "config \<Rightarrow> ('o, 'a, 'd, 'b, 'k, 'es, 'i, 'p, 'os) collaborators
    \<Rightarrow> ('o, 'k, 'es, 'p, 'os) runner_state \<Rightarrow> unit
    \<Rightarrow> (('o, 'k, 'es, 'p, 'os) runner_state \<times> 'i metric) run" where
  "update_step config ext runner_state unused =
     (case lax_scan_length (DISABLE_JIT config) (env_step config ext) runner_state
             (NUM_STEPS config) of
        (ev, Inl e) \<Rightarrow> (ev, Inl e)
      | (ev, Inr (runner_state, traj_batch)) \<Rightarrow>
         (case runner_state of (train_state, env_state, last_obs, rng) \<Rightarrow>
          let last_val = fst (snd (network_apply_batch ext (params train_state) last_obs)) in
          case calculate_gae config traj_batch last_val of (advantages, targets) \<Rightarrow>
          let update_state = (train_state, traj_batch, advantages, targets, rng) in
          (case lax_scan_length (DISABLE_JIT config) (update_epoch config ext) update_state
                  (UPDATE_EPOCHS config) of
             (ev', Inl e) \<Rightarrow> (ev @ ev', Inl e)
           | (ev', Inr (update_state, loss_info)) \<Rightarrow>
               (case update_state of (train_state, _, _, _, rng) \<Rightarrow>
                let dormancies = map (map (\<lambda>y. fst (snd (snd (snd (snd y)))))) loss_info;
                    threshold_gsm = map (map (\<lambda>y. snd (snd (snd (snd (snd y)))))) loss_info;
                    metric = (map info traj_batch, dormancies, threshold_gsm);
                    runner_state = (train_state, env_state, last_obs, rng)
                in (ev @ ev', Inr (runner_state, metric))))))"

text \<open>
  \<^verbatim>\<open>train\<close>: the initialisation of the network (the effect \<open>NetworkInit\<close>), the reset
  of the environments (\<open>EnvReset\<close>, after a split into \<^verbatim>\<open>NUM_ENVS\<close> keys that rejects
  a negative count) and the scan over the update steps.
\<close>

definition train ::
  "config \<Rightarrow> ('o, 'a, 'd, 'b, 'k, 'es, 'i, 'p, 'os) collaborators \<Rightarrow> 'k
    \<Rightarrow> (('o, 'k, 'es, 'p, 'os) runner_state \<times> 'i metric list) run" where
  "train config ext rng =
     (case random_split ext rng of (rng, rng') \<Rightarrow>
      let network_params = network_init ext rng';
          train_state = create ext network_params in
      case random_split ext rng of (rng, rng') \<Rightarrow>
      if NUM_ENVS config < 0 then ([NetworkInit], Inl JaxError)
      else
        let reset_rng = random_split_n ext rng' (nat (NUM_ENVS config)) in
        case vec_env_reset ext reset_rng of (obsv, env_state) \<Rightarrow>
        case random_split ext rng of (rng, rng') \<Rightarrow>
        let runner_state = (train_state, env_state, obsv, rng') in
        case lax_scan_length (DISABLE_JIT config) (update_step config ext) runner_state
               (NUM_UPDATES config) of
          (ev, outcome) \<Rightarrow> ([NetworkInit, EnvReset] @ ev, outcome))"

text \<open>
  \<^verbatim>\<open>main\<close> runs \<^verbatim>\<open>jax.jit(make_train(config))\<close> under
  \<^verbatim>\<open>jax.disable_jit(config["DISABLE_JIT"])\<close>. With the flag set the Python of
  \<^verbatim>\<open>train\<close> executes as written, every scan a loop. Without it \<^verbatim>\<open>train\<close> is first
  traced: the body of every scan runs once on abstract arrays, whatever the length of
  the scan, and computes nothing. \<open>trace_train\<close> lists, in the order of the trace, the
  statements that can raise then; they read the configuration only: the split into
  \<^verbatim>\<open>NUM_ENVS\<close> keys, the rollout scan of length \<^verbatim>\<open>NUM_STEPS\<close>, the assertion of
  \<^verbatim>\<open>_update_epoch\<close>, its permutation and reshapes, the scan over the epochs and the
  scan over the update steps. The compiled program runs after the trace has succeeded.
\<close>

definition trace_train :: "config \<Rightarrow> error + unit" where
  "trace_train config =
     (let batch_size = MINIBATCH_SIZE config * NUM_MINIBATCHES config in
      if NUM_ENVS config < 0 then Inl JaxError
      else if NUM_STEPS config < 0 then Inl JaxError
      else if batch_size \<noteq> NUM_STEPS config * NUM_ENVS config then Inl AssertionError
      else if batch_size < 0 \<or> NUM_MINIBATCHES config \<le> 0 then Inl JaxError
      else if UPDATE_EPOCHS config < 0 then Inl JaxError
      else if NUM_UPDATES config < 0 then Inl JaxError
      else Inr ())"

definition train_jit ::
  "config \<Rightarrow> ('o, 'a, 'd, 'b, 'k, 'es, 'i, 'p, 'os) collaborators \<Rightarrow> 'k
    \<Rightarrow> (('o, 'k, 'es, 'p, 'os) runner_state \<times> 'i metric list) run" where
  "train_jit config ext rng =
     (if DISABLE_JIT config then train config ext rng
      else case trace_train config of
             Inl e \<Rightarrow> ([], Inl e)
           | Inr _ \<Rightarrow> train config ext rng)"

definition main ::
  "config \<Rightarrow> ('o, 'a, 'd, 'b, 'k, 'es, 'i, 'p, 'os) collaborators \<Rightarrow> 'k
    \<Rightarrow> (('o, 'k, 'es, 'p, 'os) runner_state \<times> 'i metric list) run" where
  "main config ext rng =
     (case make_train config of
        Inl e \<Rightarrow> ([], Inl e)
      | Inr config \<Rightarrow> train_jit config ext rng)"

text \<open>The effects of one update step that succeeds: the rollout, then the optimizer steps.\<close>

definition step_events :: "config \<Rightarrow> event list" where
  "step_events cfg = replicate (nat (NUM_STEPS cfg)) EnvStep
     @ replicate (nat (UPDATE_EPOCHS cfg) * nat (NUM_MINIBATCHES cfg)) ParamUpdate"


subsection \<open>The update without its diagnostics\<close>

text \<open>
  Two variants of \<open>update_minbatch\<close>, to state what the diagnostics can influence. The
  first is \<open>update_minbatch\<close> with the threshold \<^verbatim>\<open>zeta_abs\<close> passed explicitly, where the
  program leaves it at its default 0.1. The second follows the spec's words for an
  update that computes no diagnostic: the loss without the dormancy rate, its
  per-sample gradients averaged over the minibatch, and the optimizer step.
\<close>

definition update_minbatch_zeta ::
  "real \<Rightarrow> config \<Rightarrow> ('o, 'a, 'd, 'b, 'k, 'es, 'i, 'p, 'os) collaborators \<Rightarrow> ('p, 'os) TrainState
    \<Rightarrow> ('a, 'o, 'i) batch \<Rightarrow> ('p, 'os) TrainState \<times> minibatch_losses" where
  "update_minbatch_zeta zeta_abs config ext train_state batch_info =
     (case batch_info of (traj_batch, advantages, targets) \<Rightarrow>
      let advantages = map (\<lambda>a. (a - mean advantages) / (std advantages + 1 / 10 ^ 8)) advantages in
      case grad_fn config ext (params train_state) traj_batch advantages targets of
        (total_loss, grads) \<Rightarrow>
      let grad_second_moment = map (map (map (\<lambda>x. x\<^sup>2))) grads;
          threshold_gsm = threshold_grad_second_moment grad_second_moment zeta_abs;
          grads = map (\<lambda>x. map mean (transpose x)) grads;
          train_state = apply_gradients config ext train_state grads
      in case total_loss of (total_loss, value_loss, loss_actor, entropy, dormancies) \<Rightarrow>
           (train_state, (total_loss, (value_loss, loss_actor, entropy, dormancies, threshold_gsm))))"

definition loss_no_diagnostics ::
  "config \<Rightarrow> ('o, 'a, 'd, 'b, 'k, 'es, 'i, 'p, 'os) collaborators \<Rightarrow> 'p \<Rightarrow> ('a, 'o, 'i) sample
    \<Rightarrow> real \<Rightarrow> real \<Rightarrow> real" where
  "loss_no_diagnostics config ext prms traj_batch gae targets =
     (case network_apply ext prms (obs traj_batch) of (pi', val, activations) \<Rightarrow>
      let logp = pi_log_prob ext pi' (action traj_batch);
          value_pred_clipped = value_f traj_batch
            + clip (val - value_f traj_batch) (- CLIP_EPS config) (CLIP_EPS config);
          value_loss = (1 / 2) * mean [max ((val - targets)\<^sup>2) ((value_pred_clipped - targets)\<^sup>2)];
          ratio = exp (logp - log_prob traj_batch);
          loss_actor = mean [- min (ratio * gae)
             (clip ratio (1 - CLIP_EPS config) (1 + CLIP_EPS config) * gae)];
          entropy = mean [pi_entropy ext pi']
      in loss_actor + VF_COEF config * value_loss - ENT_COEF config * entropy)"

definition grads_no_diagnostics ::
  "config \<Rightarrow> ('o, 'a, 'd, 'b, 'k, 'es, 'i, 'p, 'os) collaborators \<Rightarrow> 'p \<Rightarrow> ('a, 'o, 'i) batch
    \<Rightarrow> real list list" where
  "grads_no_diagnostics config ext prms batch_info =
     (case batch_info of (traj_batch, advantages, targets) \<Rightarrow>
      let advantages = map (\<lambda>a. (a - mean advantages) / (std advantages + 1 / 10 ^ 8)) advantages;
          grads = transpose (map (\<lambda>(s, gae, tgt).
                     grad ext (\<lambda>p. loss_no_diagnostics config ext p s gae tgt) prms)
                   (zip (unstack traj_batch) (zip advantages targets)))
      in map (\<lambda>x. map mean (transpose x)) grads)"

definition update_no_diagnostics ::
  "config \<Rightarrow> ('o, 'a, 'd, 'b, 'k, 'es, 'i, 'p, 'os) collaborators \<Rightarrow> ('p, 'os) TrainState
    \<Rightarrow> ('a, 'o, 'i) batch \<Rightarrow> ('p, 'os) TrainState" where
  "update_no_diagnostics config ext train_state batch_info =
     apply_gradients config ext train_state
       (grads_no_diagnostics config ext (params train_state) batch_info)"

subsection \<open>Samples and shapes\<close>

text \<open>
  The samples of a batch, as the per-sample gradient slices its nine leaves: the
  transition, the advantage and the target at each index of the leading axis.
\<close>

definition batch_samples :: "('a, 'o, 'i) batch \<Rightarrow> (('a, 'o, 'i) sample \<times> real \<times> real) list" where
  "batch_samples batch =
     (case batch of (traj_batch, advantages, targets) \<Rightarrow>
        zip (unstack traj_batch) (zip advantages targets))"

text \<open>All seven leaves of a transition, and all nine of a batch, have \<open>n\<close> entries.\<close>

definition traj_shaped :: "nat \<Rightarrow> ('a, 'o, 'i) transitions \<Rightarrow> bool" where
  "traj_shaped n tr =
     (length (done_f tr) = n \<and> length (action tr) = n \<and> length (value_f tr) = n \<and>
      length (reward tr) = n \<and> length (log_prob tr) = n \<and> length (obs tr) = n \<and>
      length (info tr) = n)"

definition batch_shaped :: "nat \<Rightarrow> ('a, 'o, 'i) batch \<Rightarrow> bool" where
  "batch_shaped n batch =
     (case batch of (traj_batch, advantages, targets) \<Rightarrow>
        traj_shaped n traj_batch \<and> length advantages = n \<and> length targets = n)"

text \<open>
  The minibatches of one epoch, as \<open>update_epoch\<close> cuts them from the arrays of the
  update step with the key it split off for the permutation.
\<close>

definition epoch_minibatches ::
  "config \<Rightarrow> ('o, 'a, 'd, 'b, 'k, 'es, 'i, 'p, 'os) collaborators \<Rightarrow> ('a, 'o, 'i) transitions list
    \<Rightarrow> real list list \<Rightarrow> real list list \<Rightarrow> 'k \<Rightarrow> ('a, 'o, 'i) batch list" where
  "epoch_minibatches config ext traj_batch advantages targets key =
     split_minibatches (nat (NUM_MINIBATCHES config))
       (shuffle_batch
          (random_permutation ext key (nat (MINIBATCH_SIZE config * NUM_MINIBATCHES config)))
          (flatten_traj traj_batch, concat advantages, concat targets))"



subsection \<open>The epochs of an update step, as the specification describes them\<close>

text \<open>
  This definition follows the spec's words, not the code: the trajectory, the
  advantages and the targets of an update step are fixed arrays; each of the \<open>n\<close>
  epochs splits off the key of its permutation, cuts its minibatches from these arrays
  and feeds them in order to the update engine, which hands the model state on; the
  losses of all passes are collected by epoch. The result is the model state and the
  key after the last epoch, and the losses.
\<close>

fun run_epochs ::
  "config \<Rightarrow> ('o, 'a, 'd, 'b, 'k, 'es, 'i, 'p, 'os) collaborators \<Rightarrow> ('a, 'o, 'i) transitions list
    \<Rightarrow> real list list \<Rightarrow> real list list \<Rightarrow> nat \<Rightarrow> ('p, 'os) TrainState \<Rightarrow> 'k
    \<Rightarrow> ('p, 'os) TrainState \<times> 'k \<times> minibatch_losses list list" where
  "run_epochs config ext traj_batch advantages targets 0 train_state rng = (train_state, rng, [])"
| "run_epochs config ext traj_batch advantages targets (Suc n) train_state rng =
     (case random_split ext rng of (rng, key) \<Rightarrow>
      case scan (update_minbatch config ext) train_state
             (epoch_minibatches config ext traj_batch advantages targets key) of
        (train_state, losses) \<Rightarrow>
      case run_epochs config ext traj_batch advantages targets n train_state rng of
        (train_state, rng, loss_info) \<Rightarrow> (train_state, rng, losses # loss_info))"

text \<open>
  The key of the permutation of epoch \<open>k\<close> (counted from 0), its minibatches, and the
  model state at which the pass over its minibatch \<open>j\<close> starts: the state after the
  epochs before \<open>k\<close> and the passes before \<open>j\<close>.
\<close>

definition epoch_key ::
  "config \<Rightarrow> ('o, 'a, 'd, 'b, 'k, 'es, 'i, 'p, 'os) collaborators \<Rightarrow> ('a, 'o, 'i) transitions list
    \<Rightarrow> real list list \<Rightarrow> real list list \<Rightarrow> ('p, 'os) TrainState \<Rightarrow> 'k \<Rightarrow> nat \<Rightarrow> 'k" where
  "epoch_key config ext traj_batch advantages targets train_state rng k =
     snd (random_split ext
            (fst (snd (run_epochs config ext traj_batch advantages targets k train_state rng))))"

definition epoch_batches ::
  "config \<Rightarrow> ('o, 'a, 'd, 'b, 'k, 'es, 'i, 'p, 'os) collaborators \<Rightarrow> ('a, 'o, 'i) transitions list
    \<Rightarrow> real list list \<Rightarrow> real list list \<Rightarrow> ('p, 'os) TrainState \<Rightarrow> 'k \<Rightarrow> nat
    \<Rightarrow> ('a, 'o, 'i) batch list" where
  "epoch_batches config ext traj_batch advantages targets train_state rng k =
     epoch_minibatches config ext traj_batch advantages targets
       (epoch_key config ext traj_batch advantages targets train_state rng k)"


subsection \<open>Examples\<close>

text \<open>A configuration for the examples below.\<close>

definition example_config :: config where
  "example_config = \<lparr>TOTAL_TIMESTEPS = 16, NUM_STEPS = 2, NUM_ENVS = 2, NUM_MINIBATCHES = 2,
     UPDATE_EPOCHS = 1, LR = 1, ANNEAL_LR = True, GAMMA = 1 / 2, GAE_LAMBDA = 1 / 2,
     CLIP_EPS = 1 / 5, ENT_COEF = 0, VF_COEF = 1 / 2, TAU = 1 / 10, DISABLE_JIT = False,
     NUM_UPDATES = 4, MINIBATCH_SIZE = 2\<rparr>"

text \<open>A rollout of two steps in two environments; the second environment resets at step 0.\<close>

definition example_traj :: "(real, real, unit) transitions list" where
  "example_traj =
     [Transition [False, True] [1, 2] [1, 2] [3, 4] [0, 0] [1, 2] [(), ()],
      Transition [False, False] [5, 6] [5, 6] [7, 8] [0, 0] [5, 6] [(), ()]]"

text \<open>
  Collaborators for the examples: the network multiplies the observation by its one
  parameter, on a batch as on one observation, actions are the means of their
  distributions, keys are numbers, the permutation reverses the batch, and the
  gradient is zero.
\<close>

definition example_ext ::
  "(real, real, real, real list, nat, nat, unit, real, unit) collaborators" where
  "example_ext =
     \<lparr>network_init = (\<lambda>k. 1),
      network_apply = (\<lambda>p x. (p * x, p * x, [[x, 1]])),
      network_apply_batch = (\<lambda>p xs. (map (\<lambda>x. p * x) xs, map (\<lambda>x. p * x) xs, [[xs]])),
      pi_sample = (\<lambda>ds k. ds),
      pi_batch_log_prob = (\<lambda>ds acts. map2 (\<lambda>d a. - (a - d)\<^sup>2) ds acts),
      pi_log_prob = (\<lambda>d a. - (a - d)\<^sup>2),
      pi_entropy = (\<lambda>d. 0),
      random_split = (\<lambda>k. (2 * k, 2 * k + 1)),
      random_split_n = (\<lambda>k n. map (\<lambda>i. k * n + i) [0..<n]),
      random_permutation = (\<lambda>k n. rev [0..<n]),
      vec_env_reset = (\<lambda>ks. (map (\<lambda>k. 1) ks, 0)),
      vec_env_step = (\<lambda>ks es acts.
         (map (\<lambda>a. a + 1) acts, es + 1, acts, map (\<lambda>a. False) acts, map (\<lambda>a. ()) acts)),
      grad = (\<lambda>f p. [[0]]),
      tx_init = (\<lambda>p. ()),
      tx_update = (\<lambda>rate g os p. (p - rate * sum_list (concat g), ()))\<rparr>"

text \<open>A configuration whose batch does not divide into its three minibatches.\<close>

definition unbalanced_config :: config where
  "unbalanced_config = example_config\<lparr>NUM_MINIBATCHES := 3\<rparr>"

definition unbalanced_eager_config :: config where
  "unbalanced_eager_config = unbalanced_config\<lparr>DISABLE_JIT := True\<rparr>"

text \<open>A configuration whose budget is less than one rollout.\<close>

definition short_config :: config where
  "short_config = example_config\<lparr>TOTAL_TIMESTEPS := 3\<rparr>"

definition short_eager_config :: config where
  "short_eager_config = short_config\<lparr>DISABLE_JIT := True\<rparr>"

text \<open>
  The rollout of the example collaborators over two steps from the observations 0 and 1.
\<close>

definition example_rollout :: "(real, real, unit) transitions list" where
  "example_rollout =
     [Transition [False, False] [0, 1] [0, 1] [0, 1] [0, 0] [0, 1] [(), ()],
      Transition [False, False] [1, 2] [1, 2] [1, 2] [0, 0] [1, 2] [(), ()]]"



section \<open>Properties\<close>

subsection \<open>Scans\<close>


lemma scan_append:
  "scan f c (xs @ ys) =
     (case scan f c xs of (c', as) \<Rightarrow> (case scan f c' ys of (c'', bs) \<Rightarrow> (c'', as @ bs)))"
  by (induction xs arbitrary: c) (auto split: prod.splits)

lemma scan_reverse_Nil: "scan_reverse f c [] = (c, [])"
  by (simp add: scan_reverse_def)

lemma scan_reverse_Cons:
  "scan_reverse f c (x # xs) =
     (case scan_reverse f c xs of (c1, ys) \<Rightarrow> (case f c1 x of (c2, y) \<Rightarrow> (c2, y # ys)))"
  by (simp add: scan_reverse_def scan_append split: prod.splits)

subsection \<open>The advantage estimator\<close>

lemma get_advantages_nth:
  assumes "shaped n tr" "length gae = n" "length nv = n"
  shows "get_advantages cfg (gae, nv) tr = ((g, v), y) \<Longrightarrow>
     g = y \<and> v = value_f tr \<and> length y = n \<and>
     (\<forall>e<n. y ! e = (reward tr ! e + GAMMA cfg * nv ! e * (1 - of_bool (done_f tr ! e)) - value_f tr ! e)
                + GAMMA cfg * GAE_LAMBDA cfg * (1 - of_bool (done_f tr ! e)) * gae ! e)"
  using assms
  by (auto simp: get_advantages_def shaped_def Let_def vadd_def vsub_def vmul_def smul_def one_minus_def)

lemma gae_scan:
  assumes "list_all (shaped n) traj" "length lv = n"
    and "scan_reverse (get_advantages cfg) (zeros_like lv, lv) traj = (c, adv)"
  shows "length adv = length traj \<and> list_all (\<lambda>a. length a = n) adv \<and>
     c = (if traj = [] then (zeros_like lv, lv) else (hd adv, value_f (hd traj))) \<and>
     (\<forall>t<length traj. \<forall>e<n.
        adv ! t ! e =
          (reward (traj ! t) ! e
            + GAMMA cfg * (if Suc t < length traj then value_f (traj ! Suc t) ! e else lv ! e)
                * (1 - of_bool (done_f (traj ! t) ! e))
            - value_f (traj ! t) ! e)
          + GAMMA cfg * GAE_LAMBDA cfg * (1 - of_bool (done_f (traj ! t) ! e))
              * (if Suc t < length traj then adv ! Suc t ! e else 0))"
  using assms
proof (induction traj arbitrary: c adv)
  case Nil
  then show ?case by (simp add: scan_reverse_Nil)
next
  case (Cons tr traj)
  obtain c1 adv1 where s1: "scan_reverse (get_advantages cfg) (zeros_like lv, lv) traj = (c1, adv1)"
    by (cases "scan_reverse (get_advantages cfg) (zeros_like lv, lv) traj") auto
  obtain gae nv where c1: "c1 = (gae, nv)" by (cases c1) auto
  obtain g v y where step: "get_advantages cfg (gae, nv) tr = ((g, v), y)"
    by (cases "get_advantages cfg (gae, nv) tr") auto
  from Cons.prems s1 c1 step have res: "c = (g, v)" "adv = y # adv1"
    by (auto simp: scan_reverse_Cons)
  from Cons.prems have sh: "shaped n tr" "list_all (shaped n) traj" by auto
  note IH = Cons.IH[OF sh(2) Cons.prems(2) s1]
  have len1: "length adv1 = length traj" and all1: "list_all (\<lambda>a. length a = n) adv1"
    using IH by auto
  have carry: "c1 = (if traj = [] then (zeros_like lv, lv) else (hd adv1, value_f (hd traj)))"
    using IH by auto
  have lg: "length gae = n"
  proof (cases traj)
    case Nil
    then show ?thesis using carry c1 Cons.prems(2) by (simp add: zeros_like_def)
  next
    case (Cons a list)
    then have "adv1 \<noteq> []" using len1 by auto
    then have "length (hd adv1) = n" using all1 by (cases adv1) auto
    then show ?thesis using carry c1 Cons by simp
  qed
  have lnv: "length nv = n"
  proof (cases traj)
    case Nil
    then show ?thesis using carry c1 Cons.prems(2) by simp
  next
    case (Cons a list)
    then show ?thesis using carry c1 sh(2) by (simp add: shaped_def)
  qed
  note st = get_advantages_nth[OF sh(1) lg lnv step]
  have gae_eq: "\<And>e. e < n \<Longrightarrow> gae ! e = (if 0 < length traj then adv1 ! 0 ! e else 0)"
    using carry c1 len1 by (cases traj; cases adv1) (auto simp: zeros_like_def Cons.prems(2))
  have nv_eq: "\<And>e. e < n \<Longrightarrow> nv ! e = (if 0 < length traj then value_f (traj ! 0) ! e else lv ! e)"
    using carry c1 by (cases traj) auto
  show ?case
  proof (intro conjI allI impI)
    show "length adv = length (tr # traj)" using res len1 by simp
    show "list_all (\<lambda>a. length a = n) adv" using res all1 st by simp
    show "c = (if tr # traj = [] then (zeros_like lv, lv) else (hd adv, value_f (hd (tr # traj))))"
      using res st by simp
  next
    fix t e assume t: "t < length (tr # traj)" and e: "e < n"
    show "adv ! t ! e =
          (reward ((tr # traj) ! t) ! e
            + GAMMA cfg * (if Suc t < length (tr # traj) then value_f ((tr # traj) ! Suc t) ! e else lv ! e)
                * (1 - of_bool (done_f ((tr # traj) ! t) ! e))
            - value_f ((tr # traj) ! t) ! e)
          + GAMMA cfg * GAE_LAMBDA cfg * (1 - of_bool (done_f ((tr # traj) ! t) ! e))
              * (if Suc t < length (tr # traj) then adv ! Suc t ! e else 0)"
    proof (cases t)
      case 0
      then show ?thesis using st e res gae_eq[OF e] nv_eq[OF e] by simp
    next
      case (Suc t')
      then have "t' < length traj" using t by simp
      then show ?thesis using IH e res Suc by simp
    qed
  qed
qed

text \<open>
  Claim C1. Given a trajectory of \<open>T\<close> steps over \<open>n\<close> environments and the bootstrap
  value \<open>last_val\<close> of the state after the last step, \<open>calculate_gae\<close> returns the
  advantages of the backward recursion
  \<open>delta t = reward t + GAMMA * V (t + 1) * (1 - done t) - value t\<close>,
  \<open>gae t = delta t + GAMMA * GAE_LAMBDA * (1 - done t) * gae (t + 1)\<close>,
  where past the last step \<open>gae\<close> is 0 and \<open>V\<close> is the bootstrap value, and the targets
  \<open>gae t + value t\<close>. Where \<open>done t\<close> is set the advantage is \<open>reward t - value t\<close>:
  neither the next value nor the next advantage contributes.
\<close>

theorem calculate_gae_recursion:
  assumes "list_all (shaped n) traj_batch" and "length last_val = n"
    and "calculate_gae cfg traj_batch last_val = (advantages, targets)"
  shows "length advantages = length traj_batch \<and> length targets = length traj_batch \<and>
     (\<forall>t<length traj_batch. \<forall>e<n.
        advantages ! t ! e =
          (reward (traj_batch ! t) ! e
            + GAMMA cfg * (if Suc t < length traj_batch then value_f (traj_batch ! Suc t) ! e
                           else last_val ! e)
                * (1 - of_bool (done_f (traj_batch ! t) ! e))
            - value_f (traj_batch ! t) ! e)
          + GAMMA cfg * GAE_LAMBDA cfg * (1 - of_bool (done_f (traj_batch ! t) ! e))
              * (if Suc t < length traj_batch then advantages ! Suc t ! e else 0)
        \<and> targets ! t ! e = advantages ! t ! e + value_f (traj_batch ! t) ! e
        \<and> (done_f (traj_batch ! t) ! e \<longrightarrow>
             advantages ! t ! e = reward (traj_batch ! t) ! e - value_f (traj_batch ! t) ! e))"
proof -
  obtain c where sc: "scan_reverse (get_advantages cfg) (zeros_like last_val, last_val) traj_batch
      = (c, advantages)"
    and tg: "targets = map2 vadd advantages (map value_f traj_batch)"
    using assms(3) by (auto simp: calculate_gae_def split: prod.splits)
  note G = gae_scan[OF assms(1,2) sc]
  have len: "length advantages = length traj_batch" using G by simp
  have lens: "\<And>t. t < length traj_batch \<Longrightarrow> length (advantages ! t) = n"
    using G len by (simp add: list_all_length)
  have lenv: "\<And>t. t < length traj_batch \<Longrightarrow> length (value_f (traj_batch ! t)) = n"
    using assms(1) by (simp add: list_all_length shaped_def)
  have T: "\<And>t e. t < length traj_batch \<Longrightarrow> e < n \<Longrightarrow>
      targets ! t ! e = advantages ! t ! e + value_f (traj_batch ! t) ! e"
    using len lens lenv by (simp add: tg vadd_def)
  show ?thesis
  proof (intro conjI allI impI)
    show "length advantages = length traj_batch" by (rule len)
    show "length targets = length traj_batch" using len by (simp add: tg)
  next
    fix t e assume "t < length traj_batch" "e < n"
    then show "advantages ! t ! e =
          (reward (traj_batch ! t) ! e
            + GAMMA cfg * (if Suc t < length traj_batch then value_f (traj_batch ! Suc t) ! e
                           else last_val ! e)
                * (1 - of_bool (done_f (traj_batch ! t) ! e))
            - value_f (traj_batch ! t) ! e)
          + GAMMA cfg * GAE_LAMBDA cfg * (1 - of_bool (done_f (traj_batch ! t) ! e))
              * (if Suc t < length traj_batch then advantages ! Suc t ! e else 0)"
      using G by blast
  next
    fix t e assume "t < length traj_batch" "e < n"
    then show "targets ! t ! e = advantages ! t ! e + value_f (traj_batch ! t) ! e" by (rule T)
  next
    fix t e assume a: "t < length traj_batch" "e < n" and d: "done_f (traj_batch ! t) ! e"
    have "advantages ! t ! e =
          (reward (traj_batch ! t) ! e
            + GAMMA cfg * (if Suc t < length traj_batch then value_f (traj_batch ! Suc t) ! e
                           else last_val ! e)
                * (1 - of_bool (done_f (traj_batch ! t) ! e))
            - value_f (traj_batch ! t) ! e)
          + GAMMA cfg * GAE_LAMBDA cfg * (1 - of_bool (done_f (traj_batch ! t) ! e))
              * (if Suc t < length traj_batch then advantages ! Suc t ! e else 0)"
      using G a by blast
    then show "advantages ! t ! e = reward (traj_batch ! t) ! e - value_f (traj_batch ! t) ! e"
      using d by simp
  qed
qed

lemma example_gae:
  "calculate_gae example_config example_traj [4, 8]
     = ([[11 / 2, 2], [4, 6]], [[13 / 2, 4], [9, 12]])"
  by (simp add: calculate_gae_def example_traj_def example_config_def scan_reverse_def
      get_advantages_def zeros_like_def vadd_def vsub_def vmul_def smul_def one_minus_def
      Let_def)

theorem calculate_gae_recursion_witness:
  "list_all (shaped 2) example_traj \<and> length [4 :: real, 8] = 2 \<and>
   calculate_gae example_config example_traj [4, 8]
     = ([[11 / 2, 2], [4, 6]], [[13 / 2, 4], [9, 12]]) \<and>
   done_f (example_traj ! 0) ! 1 \<and>
   [[11 / 2, 2], [4, 6 :: real]] ! 0 ! 1
     = reward (example_traj ! 0) ! 1 - value_f (example_traj ! 0) ! 1"
proof -
  have h1: "list_all (shaped 2) example_traj"
    by (simp add: example_traj_def shaped_def)
  have h2: "length [4 :: real, 8] = 2" by simp
  have d: "done_f (example_traj ! 0) ! 1" by (simp add: example_traj_def)
  have "(0 :: nat) < length example_traj" "(1 :: nat) < 2" by (simp_all add: example_traj_def)
  with calculate_gae_recursion [OF h1 h2 example_gae] d
  have "[[11 / 2, 2], [4, 6 :: real]] ! 0 ! 1
     = reward (example_traj ! 0) ! 1 - value_f (example_traj ! 0) ! 1"
    by blast
  with h1 h2 d example_gae show ?thesis by blast
qed

subsection \<open>The learning-rate schedule\<close>

lemma div_block:
  fixes m :: int
  assumes "0 < m" "int k < m"
  shows "int (u * nat m + k) div m = int u"
proof -
  have "int (u * nat m + k) = int u * m + int k" using assms by simp
  then show ?thesis using assms by (simp add: div_pos_pos_trivial)
qed

text \<open>
  Claim C5. With annealing, the learning rate at optimizer step \<open>n\<close> is
  \<open>LR * (1 - (n // (NUM_MINIBATCHES * UPDATE_EPOCHS)) / NUM_UPDATES)\<close>: it is the same
  for all steps of one update (\<open>LR * (1 - u / NUM_UPDATES)\<close> in update \<open>u\<close>), it is
  \<open>LR\<close> throughout update 0, it never increases with the step count, it is
  \<open>LR / NUM_UPDATES\<close> throughout the final update and would be 0 at the step after
  it. Without annealing it is the constant \<open>LR\<close>. The divisors are positive and
  \<open>LR\<close> is not negative.
\<close>

theorem lr_schedule:
  assumes "0 < NUM_MINIBATCHES cfg * UPDATE_EPOCHS cfg" and "0 < NUM_UPDATES cfg"
    and "0 \<le> LR cfg"
  shows "(ANNEAL_LR cfg \<longrightarrow>
            lr cfg n = LR cfg * (1 - real_of_int (int n div (NUM_MINIBATCHES cfg * UPDATE_EPOCHS cfg))
                                        / real_of_int (NUM_UPDATES cfg))
          \<and> (\<forall>u k. int k < NUM_MINIBATCHES cfg * UPDATE_EPOCHS cfg \<longrightarrow>
                lr cfg (u * nat (NUM_MINIBATCHES cfg * UPDATE_EPOCHS cfg) + k)
                  = LR cfg * (1 - real u / real_of_int (NUM_UPDATES cfg)))
          \<and> (\<forall>k. int k < NUM_MINIBATCHES cfg * UPDATE_EPOCHS cfg \<longrightarrow> lr cfg k = LR cfg)
          \<and> (\<forall>c c'. c \<le> c' \<longrightarrow> lr cfg c' \<le> lr cfg c)
          \<and> (\<forall>k. int k < NUM_MINIBATCHES cfg * UPDATE_EPOCHS cfg \<longrightarrow>
                lr cfg (nat (NUM_UPDATES cfg - 1) * nat (NUM_MINIBATCHES cfg * UPDATE_EPOCHS cfg) + k)
                  = LR cfg / real_of_int (NUM_UPDATES cfg))
          \<and> lr cfg (nat (NUM_UPDATES cfg) * nat (NUM_MINIBATCHES cfg * UPDATE_EPOCHS cfg)) = 0)
       \<and> (\<not> ANNEAL_LR cfg \<longrightarrow> lr cfg n = LR cfg)"
proof -
  let ?m = "NUM_MINIBATCHES cfg * UPDATE_EPOCHS cfg"
  let ?U = "NUM_UPDATES cfg"
  have block: "\<And>u k. ANNEAL_LR cfg \<Longrightarrow> int k < ?m \<Longrightarrow>
      lr cfg (u * nat ?m + k) = LR cfg * (1 - real u / real_of_int ?U)"
    using div_block[OF assms(1)] by (simp add: lr_def linear_schedule_def)
  have first: "\<And>k. ANNEAL_LR cfg \<Longrightarrow> int k < ?m \<Longrightarrow> lr cfg k = LR cfg"
    using block[of _ 0] by simp
  have mono: "\<And>c c'. ANNEAL_LR cfg \<Longrightarrow> c \<le> c' \<Longrightarrow> lr cfg c' \<le> lr cfg c"
  proof -
    fix c c' :: nat assume a: "ANNEAL_LR cfg" and le: "c \<le> c'"
    have "int c div ?m \<le> int c' div ?m"
      using le assms(1) by (intro zdiv_mono1) auto
    then have "real_of_int (int c div ?m) / real_of_int ?U \<le> real_of_int (int c' div ?m) / real_of_int ?U"
      using assms(2) by (simp add: divide_right_mono)
    then show "lr cfg c' \<le> lr cfg c"
      using a assms(3) by (simp add: lr_def linear_schedule_def mult_left_mono)
  qed
  have final: "\<And>k. ANNEAL_LR cfg \<Longrightarrow> int k < ?m \<Longrightarrow>
      lr cfg (nat (?U - 1) * nat ?m + k) = LR cfg / real_of_int ?U"
  proof -
    fix k assume a: "ANNEAL_LR cfg" "int k < ?m"
    have "real (nat (?U - 1)) = real_of_int ?U - 1" using assms(2) by simp
    then show "lr cfg (nat (?U - 1) * nat ?m + k) = LR cfg / real_of_int ?U"
      using block[OF a, of "nat (?U - 1)"] assms(2) by (simp add: field_simps)
  qed
  have zero: "ANNEAL_LR cfg \<Longrightarrow> lr cfg (nat ?U * nat ?m) = 0"
    using block[of 0 "nat ?U"] assms by simp
  show ?thesis
    using block first mono final zero by (simp add: lr_def linear_schedule_def)
qed

theorem lr_schedule_witness:
  "0 < NUM_MINIBATCHES example_config * UPDATE_EPOCHS example_config \<and>
   0 < NUM_UPDATES example_config \<and> 0 \<le> LR example_config \<and> ANNEAL_LR example_config \<and>
   lr example_config 1 = 1 \<and> lr example_config 7 = 1 / 4 \<and> lr example_config 5 \<le> lr example_config 2"
proof -
  have h1: "0 < NUM_MINIBATCHES example_config * UPDATE_EPOCHS example_config"
    and h2: "0 < NUM_UPDATES example_config" and h3: "0 \<le> LR example_config"
    and a: "ANNEAL_LR example_config"
    by (simp_all add: example_config_def)
  note S = lr_schedule [OF h1 h2 h3, of 0]
  have m: "nat (NUM_MINIBATCHES example_config * UPDATE_EPOCHS example_config) = 2"
    and u: "nat (NUM_UPDATES example_config - 1) = 3"
    and k: "int 1 < NUM_MINIBATCHES example_config * UPDATE_EPOCHS example_config"
    by (simp_all add: example_config_def)
  have "lr example_config 1 = LR example_config" using S a k by blast
  then have r1: "lr example_config 1 = 1" by (simp add: example_config_def)
  have "lr example_config (nat (NUM_UPDATES example_config - 1)
          * nat (NUM_MINIBATCHES example_config * UPDATE_EPOCHS example_config) + 1)
        = LR example_config / real_of_int (NUM_UPDATES example_config)"
    using S a k by blast
  then have r2: "lr example_config 7 = 1 / 4" by (simp add: m u) (simp add: example_config_def)
  have r3: "lr example_config 5 \<le> lr example_config 2" using S a by simp
  show ?thesis using h1 h2 h3 a r1 r2 r3 by blast
qed

subsection \<open>The diagnostics\<close>

lemma loss_fn_total:
  "fst (loss_fn cfg ext prms s gae tgt) = loss_no_diagnostics cfg ext prms s gae tgt"
  by (simp add: loss_fn_def loss_no_diagnostics_def Let_def split: prod.splits)

lemma loss_no_diagnostics_TAU:
  "loss_no_diagnostics (cfg\<lparr>TAU := tau\<rparr>) ext prms s gae tgt
     = loss_no_diagnostics cfg ext prms s gae tgt"
  by (simp add: loss_no_diagnostics_def)

lemma grads_no_diagnostics_TAU:
  "grads_no_diagnostics (cfg\<lparr>TAU := tau\<rparr>) ext prms b = grads_no_diagnostics cfg ext prms b"
  by (simp add: grads_no_diagnostics_def loss_no_diagnostics_TAU)

lemma apply_gradients_TAU:
  "apply_gradients (cfg\<lparr>TAU := tau\<rparr>) ext ts g = apply_gradients cfg ext ts g"
  by (simp add: apply_gradients_def lr_def linear_schedule_def)

lemma grad_fn_grads:
  "snd (grad_fn cfg ext prms traj adv tgt)
     = transpose (map (\<lambda>(s, gae, t). grad ext (\<lambda>p. loss_no_diagnostics cfg ext p s gae t) prms)
         (zip (unstack traj) (zip adv tgt)))"
  by (simp add: grad_fn_def Let_def loss_fn_total case_prod_unfold comp_def)

lemma update_minbatch_zeta_state:
  "fst (update_minbatch_zeta zeta cfg ext ts b) = update_no_diagnostics cfg ext ts b"
proof -
  obtain traj adv tgt where b: "b = (traj, adv, tgt)" by (cases b) auto
  show ?thesis
    unfolding b update_minbatch_zeta_def update_no_diagnostics_def grads_no_diagnostics_def
    by (simp add: Let_def grad_fn_grads[symmetric] split: prod.splits)
qed

lemma update_minbatch_default: "update_minbatch cfg ext ts b = update_minbatch_zeta (1 / 10) cfg ext ts b"
  by (simp add: update_minbatch_def update_minbatch_zeta_def)

text \<open>
  Claim C6. The diagnostics only observe. The minibatch update is the update with
  \<^verbatim>\<open>zeta_abs\<close> at its default; whatever the thresholds \<open>tau\<close> and \<open>zeta\<close>, the new model
  state is the optimizer step on the averaged per-sample gradients of the loss that
  computes no diagnostic, which is the state of the update without diagnostics.
\<close>

theorem diagnostics_noninterference:
  "update_minbatch cfg ext train_state batch_info
     = update_minbatch_zeta (1 / 10) cfg ext train_state batch_info
   \<and> fst (update_minbatch_zeta zeta (cfg\<lparr>TAU := tau\<rparr>) ext train_state batch_info)
       = apply_gradients cfg ext train_state
           (grads_no_diagnostics cfg ext (params train_state) batch_info)
   \<and> fst (update_minbatch_zeta zeta (cfg\<lparr>TAU := tau\<rparr>) ext train_state batch_info)
       = fst (update_minbatch cfg ext train_state batch_info)
   \<and> fst (update_minbatch cfg ext train_state batch_info)
       = update_no_diagnostics cfg ext train_state batch_info"
  by (simp add: update_minbatch_default update_minbatch_zeta_state update_no_diagnostics_def
      grads_no_diagnostics_TAU apply_gradients_TAU)

lemma transpose_replicate:
  assumes "0 < m"
  shows "transpose (replicate m (replicate n x)) = replicate n (replicate m x)"
proof -
  have "transpose (replicate m (replicate n x))
      = map (\<lambda>i. map (\<lambda>j. replicate m (replicate n x) ! j ! i) [0..<length (replicate m (replicate n x))]) [0..<n]"
    using assms by (intro transpose_rectangle) auto
  also have "\<dots> = replicate n (replicate m x)"
    by (auto intro!: nth_equalityI)
  finally show ?thesis .
qed

lemma sum_list_replicate_zero: "sum_list (replicate k (0::real)) = 0"
  by (induction k) auto

lemma concat_replicate_zero:
  "sum_list (concat (replicate m (replicate n (0::real)))) = 0"
  by (induction m) (auto simp: sum_list_replicate_zero)

lemma length_concat_replicate: "length (concat (replicate m (replicate n x))) = m * n"
  by (induction m) auto

lemma zero_layer_dormancy:
  assumes "0 < m" "0 < n"
  shows "layer_dormancy tau (replicate m (replicate n 0)) = Fin 0"
proof -
  have a: "map (map abs) (replicate m (replicate n (0::real))) = replicate m (replicate n 0)"
    by simp
  have lm: "jnp_mean (concat (replicate m (replicate n (0::real)))) = Fin 0"
    using assms by (simp add: jnp_mean_def concat_replicate_zero length_concat_replicate)
  have col: "jnp_mean (replicate m (0::real)) = Fin 0"
    using assms by (simp add: jnp_mean_def sum_list_replicate_zero)
  have fin: "jnp_mean (replicate n (0::real)) = Fin 0"
    using assms by (simp add: jnp_mean_def sum_list_replicate_zero)
  show ?thesis
    by (simp add: layer_dormancy_def a lm col transpose_replicate[OF assms(1)] Let_def fin)
qed

lemma zero_threshold_leaf:
  assumes "0 < m" "0 < n"
  shows "threshold_leaf zeta (replicate m (replicate n 0)) = Fin 0"
proof -
  have lm: "jnp_mean (concat (replicate m (replicate n (0::real)))) = Fin 0"
    using assms by (simp add: jnp_mean_def concat_replicate_zero length_concat_replicate)
  have col: "jnp_mean (replicate m (0::real)) = Fin 0"
    using assms by (simp add: jnp_mean_def sum_list_replicate_zero)
  have fin: "jnp_mean (replicate n (0::real)) = Fin 0"
    using assms by (simp add: jnp_mean_def sum_list_replicate_zero)
  show ?thesis
    by (simp add: threshold_leaf_def lm col transpose_replicate[OF assms(1)] Let_def fin)
qed

text \<open>
  Claim C9, as the code has it. A zero denominator is not guarded, but the diagnostic
  stays finite: for an array of \<open>m\<close> rows and \<open>n\<close> columns (both positive) whose
  entries are all zero, the overall mean is zero, each quotient is the not-a-number
  0 / 0, every comparison with the threshold is false, and the dormancy rate and the
  threshold rate are 0. The model state after the minibatch pass is that of the update
  without diagnostics.
\<close>

theorem zero_denominator_diagnostics:
  assumes "0 < m" and "0 < n"
  shows "jnp_mean (concat (replicate m (replicate n 0))) = Fin 0
       \<and> fdiv (jnp_mean (replicate m 0)) (jnp_mean (concat (replicate m (replicate n 0)))) = NaN
       \<and> layer_dormancy tau (replicate m (replicate n 0)) = Fin 0
       \<and> threshold_leaf zeta (replicate m (replicate n 0)) = Fin 0
       \<and> fst (update_minbatch cfg ext train_state batch_info)
           = update_no_diagnostics cfg ext train_state batch_info"
proof -
  have lm: "jnp_mean (concat (replicate m (replicate n (0::real)))) = Fin 0"
    using assms by (simp add: jnp_mean_def concat_replicate_zero length_concat_replicate)
  have col: "jnp_mean (replicate m (0::real)) = Fin 0"
    using assms by (simp add: jnp_mean_def sum_list_replicate_zero)
  show ?thesis
    using zero_layer_dormancy[OF assms] zero_threshold_leaf[OF assms]
    by (simp add: lm col update_minbatch_default update_minbatch_zeta_state)
qed

theorem zero_denominator_diagnostics_witness:
  "(0::nat) < 1 \<and> (0::nat) < 3
   \<and> layer_dormancy (1 / 10) [[0, 0, 0]] = Fin 0
   \<and> threshold_leaf (1 / 10) [[0, 0, 0]] = Fin 0"
  using zero_denominator_diagnostics [of 1 3 "1 / 10" "1 / 10" example_config example_ext
      "create example_ext 1" "(Transition [] [] [] [] [] [] [], [], [])"]
  by (simp add: numeral_3_eq_3)

text \<open>
  Claim C9 as stated fails: the diagnostics of an all-zero layer and of an all-zero
  squared gradient are the finite value 0.
\<close>

theorem zero_denominator_counterexample:
  "layer_dormancy (1 / 10) [[0, 0, 0]] = Fin 0 \<and> is_finite (layer_dormancy (1 / 10) [[0, 0, 0]])
   \<and> threshold_leaf (1 / 10) [[0, 0], [0, 0]] = Fin 0
   \<and> is_finite (threshold_leaf (1 / 10) [[0, 0], [0, 0]])"
  by (simp add: layer_dormancy_def threshold_leaf_def jnp_mean_def)

subsection \<open>Runs\<close>

lemma scan_run_pure:
  "scan_run (\<lambda>c x. (ev, Inr (f c x))) c xs
     = (concat (replicate (length xs) ev), Inr (scan f c xs))"
  by (induction xs arbitrary: c) (auto split: prod.splits)

lemma scan_run_const:
  assumes "\<And>c x. \<exists>c' y. f c x = (evs, Inr (c', y))"
  shows "\<exists>c' ys. scan_run f c xs = (concat (replicate (length xs) evs), Inr (c', ys))
           \<and> length ys = length xs"
proof (induction xs arbitrary: c)
  case Nil
  then show ?case by simp
next
  case (Cons x xs)
  obtain c1 y where f: "f c x = (evs, Inr (c1, y))" using assms[of c x] by blast
  obtain c2 ys where r: "scan_run f c1 xs = (concat (replicate (length xs) evs), Inr (c2, ys))"
    and l: "length ys = length xs"
    using Cons.IH[of c1] by blast
  show ?case using f r l by simp
qed

lemma scan_run_first_fails:
  assumes "f c x = (evs, Inl e)"
  shows "scan_run f c (x # xs) = (evs, Inl e)"
  using assms by simp


lemma lax_scan_length_ok:
  assumes "0 \<le> n" and "eager \<Longrightarrow> 0 < n"
  shows "lax_scan_length eager f c n = scan_run f c (replicate (nat n) ())"
  using assms by (auto simp: lax_scan_length_def lax_scan_def)

lemma lax_scan_length_neg:
  assumes "n < 0"
  shows "lax_scan_length eager f c n = ([], Inl JaxError)"
  using assms by (simp add: lax_scan_length_def)

lemma lax_scan_length_zero_eager: "lax_scan_length True f c 0 = ([], Inl ValueError)"
  by (simp add: lax_scan_length_def lax_scan_def)


lemma concat_replicate_single: "concat (replicate n [x]) = replicate n x"
  by (induction n) auto

subsection \<open>The minibatch scheduler\<close>

lemma length_split_minibatches: "length (split_minibatches m b) = m"
  by (cases b) (simp add: split_minibatches_def)

lemma length_concat_const:
  assumes "list_all (\<lambda>x. length x = n) xs"
  shows "length (concat xs) = length xs * n"
  using assms by (induction xs) auto

lemma concat_chunks:
  assumes "length x = m * k"
  shows "concat (map (\<lambda>j. take k (drop (j * k) x)) [0..<m]) = x"
  using assms
proof (induction m arbitrary: x rule: nat.induct)
  case zero
  then show ?case by simp
next
  case (Suc m)
  have l: "length (take (m * k) x) = m * k" using Suc.prems by simp
  have "concat (map (\<lambda>j. take k (drop (j * k) x)) [0..<Suc m])
      = concat (map (\<lambda>j. take k (drop (j * k) x)) [0..<m]) @ take k (drop (m * k) x)"
    by simp
  also have "map (\<lambda>j. take k (drop (j * k) x)) [0..<m]
      = map (\<lambda>j. take k (drop (j * k) (take (m * k) x))) [0..<m]"
  proof (rule map_cong[OF refl])
    fix j assume "j \<in> set [0..<m]"
    then have "j * k + k \<le> m * k"
      by (metis Suc_leI atLeastLessThan_iff mult_Suc mult_le_mono1 set_upt add.commute)
    then show "take k (drop (j * k) x) = take k (drop (j * k) (take (m * k) x))"
      by (simp add: drop_take)
  qed
  also have "concat \<dots> = take (m * k) x" by (rule Suc.IH[OF l])
  also have "take k (drop (m * k) x) = drop (m * k) x" using Suc.prems by simp
  finally show ?case by simp
qed

lemma reshape_rows_shape:
  assumes "length x = m * k" "0 < m"
  shows "reshape_rows m x = map (\<lambda>j. take k (drop (j * k) x)) [0..<m]"
  using assms by (simp add: reshape_rows_def)

lemma reshape_rows_nth:
  assumes "length x = m * k" "0 < m" "j < m"
  shows "reshape_rows m x ! j = take k (drop (j * k) x)"
  using assms by (simp add: reshape_rows_shape)

lemma sample_at_fields:
  "sample_at tb i = Transition (done_f tb ! i) (action tb ! i) (value_f tb ! i) (reward tb ! i)
     (log_prob tb ! i) (obs tb ! i) (info tb ! i)"
  by (cases tb) (simp add: sample_at_def)

lemma batch_samples_length:
  assumes "batch_shaped n b"
  shows "length (batch_samples b) = n"
  using assms by (cases b) (simp add: batch_samples_def batch_shaped_def traj_shaped_def unstack_def)

lemma batch_samples_nth:
  assumes "batch_shaped n (tb, adv, tgt)" "i < n"
  shows "batch_samples (tb, adv, tgt) ! i = (sample_at tb i, adv ! i, tgt ! i)"
  using assms by (simp add: batch_samples_def batch_shaped_def traj_shaped_def unstack_def)

lemma shuffle_batch_shaped:
  assumes "batch_shaped n b"
  shows "batch_shaped (length perm) (shuffle_batch perm b)"
proof -
  obtain tb adv tgt where b: "b = (tb, adv, tgt)" by (cases b) auto
  show ?thesis
    unfolding b by (cases tb) (simp add: shuffle_batch_def batch_shaped_def traj_shaped_def jnp_take_def)
qed

lemma shuffle_batch_samples:
  assumes "batch_shaped n b" "\<forall>i\<in>set perm. i < n"
  shows "batch_samples (shuffle_batch perm b) = map (\<lambda>i. batch_samples b ! i) perm"
proof (rule nth_equalityI)
  show "length (batch_samples (shuffle_batch perm b)) = length (map (\<lambda>i. batch_samples b ! i) perm)"
    using batch_samples_length[OF shuffle_batch_shaped[OF assms(1), of perm]] by simp
next
  fix j assume "j < length (batch_samples (shuffle_batch perm b))"
  then have j: "j < length perm"
    using batch_samples_length[OF shuffle_batch_shaped[OF assms(1), of perm]] by simp
  then have pj: "perm ! j < n" using assms(2) by simp
  obtain tb adv tgt where b: "b = (tb, adv, tgt)" by (cases b) auto
  obtain tb' adv' tgt' where s: "shuffle_batch perm b = (tb', adv', tgt')"
    by (cases "shuffle_batch perm b") auto
  have sh': "batch_shaped (length perm) (tb', adv', tgt')"
    using shuffle_batch_shaped[OF assms(1), of perm] s by simp
  have l: "batch_samples (tb', adv', tgt') ! j = (sample_at tb' j, adv' ! j, tgt' ! j)"
    by (rule batch_samples_nth[OF sh' j])
  have r: "batch_samples (tb, adv, tgt) ! (perm ! j) = (sample_at tb (perm ! j), adv ! (perm ! j), tgt ! (perm ! j))"
    using batch_samples_nth[OF _ pj] assms(1) b by simp
  have e: "sample_at tb' j = sample_at tb (perm ! j)" "adv' ! j = adv ! (perm ! j)"
    "tgt' ! j = tgt ! (perm ! j)"
    using s j unfolding b by (cases tb; auto simp: shuffle_batch_def sample_at_fields jnp_take_def)+
  show "batch_samples (shuffle_batch perm b) ! j = map (\<lambda>i. batch_samples b ! i) perm ! j"
    using l r e j s b by simp
qed

lemma split_minibatches_nth:
  assumes "batch_shaped (m * k) (tb, adv, tgt)" "0 < m" "j < m"
  shows "split_minibatches m (tb, adv, tgt) ! j =
     (Transition (take k (drop (j * k) (done_f tb))) (take k (drop (j * k) (action tb)))
        (take k (drop (j * k) (value_f tb))) (take k (drop (j * k) (reward tb)))
        (take k (drop (j * k) (log_prob tb))) (take k (drop (j * k) (obs tb)))
        (take k (drop (j * k) (info tb))),
      take k (drop (j * k) adv), take k (drop (j * k) tgt))"
  using assms
  by (cases tb) (simp add: split_minibatches_def batch_shaped_def traj_shaped_def reshape_rows_nth)

lemma chunk_bound:
  fixes j m k :: nat
  assumes "j < m"
  shows "j * k + k \<le> m * k"
  using assms by (metis Suc_leI mult_Suc mult_le_mono1 add.commute)

lemma chunk_length:
  assumes "length x = m * k" "j < m"
  shows "length (take k (drop (j * k) x)) = k"
  using chunk_bound[OF assms(2), of k] assms(1) by simp

lemma split_minibatches_shaped:
  assumes "batch_shaped (m * k) b" "0 < m" "j < m"
  shows "batch_shaped k (split_minibatches m b ! j)"
proof -
  obtain tb adv tgt where b: "b = (tb, adv, tgt)" by (cases b) auto
  show ?thesis
    using assms chunk_bound[OF assms(3), of k]
    unfolding b split_minibatches_nth[OF assms(1)[unfolded b] assms(2,3)]
    by (simp add: batch_shaped_def traj_shaped_def)
qed

lemma split_minibatches_samples:
  assumes "batch_shaped (m * k) b" "0 < m" "j < m"
  shows "batch_samples (split_minibatches m b ! j) = take k (drop (j * k) (batch_samples b))"
proof (rule nth_equalityI)
  have lb: "length (batch_samples b) = m * k" by (rule batch_samples_length[OF assms(1)])
  show "length (batch_samples (split_minibatches m b ! j)) = length (take k (drop (j * k) (batch_samples b)))"
    using batch_samples_length[OF split_minibatches_shaped[OF assms]]
      chunk_length[OF lb assms(3)] by simp
next
  fix i assume "i < length (batch_samples (split_minibatches m b ! j))"
  then have i: "i < k" using batch_samples_length[OF split_minibatches_shaped[OF assms]] by simp
  have bd: "j * k + k \<le> m * k" by (rule chunk_bound[OF assms(3)])
  then have idx: "j * k + i < m * k" using i by simp
  have jk: "j * k \<le> m * k" using assms(3) by simp
  obtain tb adv tgt where b: "b = (tb, adv, tgt)" by (cases b) auto
  have sh: "batch_shaped (m * k) (tb, adv, tgt)" using assms(1) b by simp
  have lb: "length (batch_samples b) = m * k" by (rule batch_samples_length[OF assms(1)])
  have r: "take k (drop (j * k) (batch_samples b)) ! i = batch_samples b ! (j * k + i)"
  proof -
    have "j * k \<le> length (batch_samples b)" using assms(3) lb by simp
    then show ?thesis using i by (simp add: nth_drop)
  qed
  have r2: "batch_samples b ! (j * k + i)
      = (sample_at tb (j * k + i), adv ! (j * k + i), tgt ! (j * k + i))"
    unfolding b by (rule batch_samples_nth[OF sh idx])
  have shj: "batch_shaped k (split_minibatches m (tb, adv, tgt) ! j)"
    using split_minibatches_shaped[OF assms] b by simp
  have l: "batch_samples (split_minibatches m (tb, adv, tgt) ! j) ! i
      = (sample_at tb (j * k + i), adv ! (j * k + i), tgt ! (j * k + i))"
    using shj i idx sh jk
    unfolding split_minibatches_nth[OF sh assms(2,3)]
    by (subst batch_samples_nth[where n = k])
       (simp_all add: sample_at_fields batch_shaped_def traj_shaped_def)
  show "batch_samples (split_minibatches m b ! j) ! i = take k (drop (j * k) (batch_samples b)) ! i"
    using l r r2 b by simp
qed

lemma flatten_leaf_length:
  assumes "list_all (traj_shaped n) traj" "\<And>tr. traj_shaped n tr \<Longrightarrow> length (f tr) = n"
  shows "length (concat (map f traj)) = length traj * n"
proof -
  have "list_all (\<lambda>x. length x = n) (map f traj)"
    using assms by (simp add: list_all_iff)
  from length_concat_const[OF this] show ?thesis by simp
qed

lemma flatten_shaped:
  assumes "list_all (traj_shaped n) traj" "list_all (\<lambda>a. length a = n) adv"
    "list_all (\<lambda>a. length a = n) tgt" "length adv = length traj" "length tgt = length traj"
  shows "batch_shaped (length traj * n) (flatten_traj traj, concat adv, concat tgt)"
proof -
  have "traj_shaped (length traj * n) (flatten_traj traj)"
    unfolding flatten_traj_def traj_shaped_def Transition.sel
    by (intro conjI flatten_leaf_length[OF assms(1)]) (simp_all add: traj_shaped_def)
  then show ?thesis
    using length_concat_const[OF assms(2)] length_concat_const[OF assms(3)] assms(4,5)
    by (simp add: batch_shaped_def)
qed

lemma mset_take_perm:
  assumes "mset perm = mset [0..<length xs]"
  shows "mset (map (\<lambda>i. xs ! i) perm) = mset xs"
proof -
  have "mset (map (\<lambda>i. xs ! i) perm) = image_mset (\<lambda>i. xs ! i) (mset perm)" by simp
  also have "\<dots> = mset (map (\<lambda>i. xs ! i) [0..<length xs])" by (simp add: assms)
  also have "\<dots> = mset xs" by (simp add: map_nth)
  finally show ?thesis .
qed

lemma split_minibatches_concat:
  assumes "batch_shaped (m * k) b" "0 < m"
  shows "concat (map batch_samples (split_minibatches m b)) = batch_samples b"
proof -
  have "split_minibatches m b = map (\<lambda>j. split_minibatches m b ! j) [0..<m]"
    using map_nth[of "split_minibatches m b"] by (simp add: length_split_minibatches)
  then have "map batch_samples (split_minibatches m b)
      = map (\<lambda>j. batch_samples (split_minibatches m b ! j)) [0..<m]"
    by (metis (no_types, lifting) map_map comp_def map_eq_conv)
  also have "\<dots> = map (\<lambda>j. take k (drop (j * k) (batch_samples b))) [0..<m]"
    using split_minibatches_samples[OF assms] by simp
  finally show ?thesis
    using concat_chunks[OF batch_samples_length[OF assms(1)]] by simp
qed

lemma update_epoch_minibatches:
  assumes "MINIBATCH_SIZE cfg * NUM_MINIBATCHES cfg = NUM_STEPS cfg * NUM_ENVS cfg"
    and "0 < NUM_MINIBATCHES cfg" and "0 \<le> NUM_STEPS cfg" and "0 \<le> NUM_ENVS cfg"
    and "random_split ext rng = (rng', key)"
  shows "update_epoch cfg ext (ts, traj, adv, tgt, rng) u
     = (replicate (nat (NUM_MINIBATCHES cfg)) ParamUpdate,
        Inr ((fst (scan (update_minbatch cfg ext) ts (epoch_minibatches cfg ext traj adv tgt key)),
              traj, adv, tgt, rng'),
             snd (scan (update_minbatch cfg ext) ts (epoch_minibatches cfg ext traj adv tgt key))))"
proof -
  let ?mbs = "epoch_minibatches cfg ext traj adv tgt key"
  have "0 \<le> NUM_STEPS cfg * NUM_ENVS cfg" using assms(3,4) by (rule mult_nonneg_nonneg)
  then have b: "\<not> NUM_STEPS cfg * NUM_ENVS cfg < 0" by simp
  have len: "length ?mbs = nat (NUM_MINIBATCHES cfg)"
    by (simp add: epoch_minibatches_def length_split_minibatches)
  then have ne: "?mbs \<noteq> []" using assms(2) by auto
  have l: "lax_scan (DISABLE_JIT cfg)
       (\<lambda>train_state batch_info. ([ParamUpdate], Inr (update_minbatch cfg ext train_state batch_info)))
       ts ?mbs
     = (replicate (nat (NUM_MINIBATCHES cfg)) ParamUpdate, Inr (scan (update_minbatch cfg ext) ts ?mbs))"
    using ne by (simp add: lax_scan_def scan_run_pure len concat_replicate_single)
  have m: "\<not> NUM_MINIBATCHES cfg \<le> 0" using assms(2) by simp
  show ?thesis
    using l unfolding epoch_minibatches_def update_epoch_def
    by (simp add: Let_def assms(1,5) b m split: prod.splits)
qed

lemma epoch_minibatches_facts:
  assumes "MINIBATCH_SIZE cfg * NUM_MINIBATCHES cfg = NUM_STEPS cfg * NUM_ENVS cfg"
    and "0 < NUM_MINIBATCHES cfg" and "0 \<le> NUM_STEPS cfg" and "0 \<le> NUM_ENVS cfg"
    and "length traj_batch = nat (NUM_STEPS cfg)"
    and "list_all (traj_shaped (nat (NUM_ENVS cfg))) traj_batch"
    and "length advantages = nat (NUM_STEPS cfg)"
    and "list_all (\<lambda>a. length a = nat (NUM_ENVS cfg)) advantages"
    and "length targets = nat (NUM_STEPS cfg)"
    and "list_all (\<lambda>a. length a = nat (NUM_ENVS cfg)) targets"
    and "\<forall>k n. mset (random_permutation ext k n) = mset [0..<n]"
    and "random_split ext rng = (rng', key)"
  shows "batch_shaped (nat (NUM_ENVS cfg * NUM_STEPS cfg))
        (flatten_traj traj_batch, concat advantages, concat targets)
   \<and> mset (random_permutation ext key (nat (NUM_ENVS cfg * NUM_STEPS cfg)))
        = mset [0..<nat (NUM_ENVS cfg * NUM_STEPS cfg)]
   \<and> length (epoch_minibatches cfg ext traj_batch advantages targets key)
        = nat (NUM_MINIBATCHES cfg)
   \<and> list_all (batch_shaped (nat (MINIBATCH_SIZE cfg)))
        (epoch_minibatches cfg ext traj_batch advantages targets key)
   \<and> concat (map batch_samples (epoch_minibatches cfg ext traj_batch advantages targets key))
        = map (\<lambda>i. batch_samples (flatten_traj traj_batch, concat advantages, concat targets) ! i)
            (random_permutation ext key (nat (NUM_ENVS cfg * NUM_STEPS cfg)))
   \<and> mset (concat (map batch_samples (epoch_minibatches cfg ext traj_batch advantages targets key)))
        = mset (batch_samples (flatten_traj traj_batch, concat advantages, concat targets))"
proof -
  let ?m = "nat (NUM_MINIBATCHES cfg)"
  let ?k = "nat (MINIBATCH_SIZE cfg)"
  let ?B = "nat (NUM_ENVS cfg * NUM_STEPS cfg)"
  let ?batch = "(flatten_traj traj_batch, concat advantages, concat targets)"
  let ?perm = "random_permutation ext key ?B"
  let ?mbs = "epoch_minibatches cfg ext traj_batch advantages targets key"
  have m: "0 < ?m" using assms(2) by simp
  have k0: "0 \<le> MINIBATCH_SIZE cfg"
  proof (rule ccontr)
    assume "\<not> 0 \<le> MINIBATCH_SIZE cfg"
    then have "MINIBATCH_SIZE cfg * NUM_MINIBATCHES cfg < 0"
      using assms(2) by (simp add: mult_neg_pos)
    moreover have "0 \<le> NUM_STEPS cfg * NUM_ENVS cfg" using assms(3,4) by simp
    ultimately show False using assms(1) by simp
  qed
  have B: "?B = ?m * ?k"
  proof -
    have "NUM_ENVS cfg * NUM_STEPS cfg = NUM_MINIBATCHES cfg * MINIBATCH_SIZE cfg"
      using assms(1) by (simp add: mult.commute)
    then show ?thesis using assms(2) k0 by (simp add: nat_mult_distrib)
  qed
  have B': "nat (MINIBATCH_SIZE cfg * NUM_MINIBATCHES cfg) = ?B"
    using assms(1) by (simp add: mult.commute)
  have B2: "?B = length traj_batch * nat (NUM_ENVS cfg)"
    using assms(3,4,5) by (simp add: nat_mult_distrib mult.commute)
  have sh: "batch_shaped ?B ?batch"
    unfolding B2 using assms(5,7,9) by (intro flatten_shaped assms(6,8,10)) simp_all
  have pm: "mset ?perm = mset [0..<?B]" using assms(11) by blast
  then have plen: "length ?perm = ?B" by (metis length_upt mset_eq_length minus_nat.diff_0)
  have pset: "\<forall>i\<in>set ?perm. i < ?B"
    using pm by (metis atLeastLessThan_iff mset_eq_setD set_upt)
  let ?sb = "shuffle_batch ?perm ?batch"
  have ssh: "batch_shaped (?m * ?k) ?sb"
    using shuffle_batch_shaped[OF sh, of ?perm] plen B by simp
  have mbs: "?mbs = split_minibatches ?m ?sb"
    by (simp add: epoch_minibatches_def B')
  have len: "length ?mbs = ?m" by (simp add: mbs length_split_minibatches)
  have each: "list_all (batch_shaped ?k) ?mbs"
    unfolding list_all_length len
    using split_minibatches_shaped[OF ssh m] by (simp add: mbs)
  have cc: "concat (map batch_samples ?mbs) = map (\<lambda>i. batch_samples ?batch ! i) ?perm"
    using split_minibatches_concat[OF ssh m] shuffle_batch_samples[OF sh pset] by (simp add: mbs)
  have ms: "mset (concat (map batch_samples ?mbs)) = mset (batch_samples ?batch)"
    unfolding cc using pm batch_samples_length[OF sh] by (intro mset_take_perm) simp
  show ?thesis using sh pm len each cc ms by simp
qed

text \<open>
  Claim C3. In every epoch whose assertion holds, for arrays of \<^verbatim>\<open>NUM_STEPS\<close> rows and
  \<^verbatim>\<open>NUM_ENVS\<close> columns and a generator whose \<^verbatim>\<open>permutation\<close> returns a permutation of
  \<open>[0..<n]\<close>: the epoch splits its key into the key it carries on and the key of its
  permutation; the flattened batch has \<open>NUM_ENVS * NUM_STEPS\<close> entries in each of its
  nine leaves; the minibatches fed to the update engine, in order, are
  \<^verbatim>\<open>NUM_MINIBATCHES\<close> batches of \<^verbatim>\<open>MINIBATCH_SIZE\<close> entries per leaf; read one after the
  other, their samples are the samples of the flattened batch at the indices of the
  permutation (so all leaves are reordered alike and the slices are contiguous); and
  as a multiset they are the samples of the flattened batch: each once.
\<close>

theorem minibatch_schedule:
  assumes "MINIBATCH_SIZE cfg * NUM_MINIBATCHES cfg = NUM_STEPS cfg * NUM_ENVS cfg"
    and "0 < NUM_MINIBATCHES cfg" and "0 \<le> NUM_STEPS cfg" and "0 \<le> NUM_ENVS cfg"
    and "length traj_batch = nat (NUM_STEPS cfg)"
    and "list_all (traj_shaped (nat (NUM_ENVS cfg))) traj_batch"
    and "length advantages = nat (NUM_STEPS cfg)"
    and "list_all (\<lambda>a. length a = nat (NUM_ENVS cfg)) advantages"
    and "length targets = nat (NUM_STEPS cfg)"
    and "list_all (\<lambda>a. length a = nat (NUM_ENVS cfg)) targets"
    and "\<forall>k n. mset (random_permutation ext k n) = mset [0..<n]"
    and "random_split ext rng = (rng', key)"
  shows "update_epoch cfg ext (train_state, traj_batch, advantages, targets, rng) ()
     = (replicate (nat (NUM_MINIBATCHES cfg)) ParamUpdate,
        Inr ((fst (scan (update_minbatch cfg ext) train_state
                     (epoch_minibatches cfg ext traj_batch advantages targets key)),
              traj_batch, advantages, targets, rng'),
             snd (scan (update_minbatch cfg ext) train_state
                     (epoch_minibatches cfg ext traj_batch advantages targets key))))
   \<and> batch_shaped (nat (NUM_ENVS cfg * NUM_STEPS cfg))
        (flatten_traj traj_batch, concat advantages, concat targets)
   \<and> mset (random_permutation ext key (nat (NUM_ENVS cfg * NUM_STEPS cfg)))
        = mset [0..<nat (NUM_ENVS cfg * NUM_STEPS cfg)]
   \<and> length (epoch_minibatches cfg ext traj_batch advantages targets key)
        = nat (NUM_MINIBATCHES cfg)
   \<and> list_all (batch_shaped (nat (MINIBATCH_SIZE cfg)))
        (epoch_minibatches cfg ext traj_batch advantages targets key)
   \<and> concat (map batch_samples (epoch_minibatches cfg ext traj_batch advantages targets key))
        = map (\<lambda>i. batch_samples (flatten_traj traj_batch, concat advantages, concat targets) ! i)
            (random_permutation ext key (nat (NUM_ENVS cfg * NUM_STEPS cfg)))
   \<and> mset (concat (map batch_samples (epoch_minibatches cfg ext traj_batch advantages targets key)))
        = mset (batch_samples (flatten_traj traj_batch, concat advantages, concat targets))"
  using update_epoch_minibatches [OF assms(1-4,12), of train_state traj_batch advantages targets "()"]
    epoch_minibatches_facts [OF assms]
  by blast

theorem minibatch_schedule_witness:
  "MINIBATCH_SIZE example_config * NUM_MINIBATCHES example_config
     = NUM_STEPS example_config * NUM_ENVS example_config \<and>
   0 < NUM_MINIBATCHES example_config \<and> 0 \<le> NUM_STEPS example_config \<and>
   0 \<le> NUM_ENVS example_config \<and>
   length example_traj = nat (NUM_STEPS example_config) \<and>
   list_all (traj_shaped (nat (NUM_ENVS example_config))) example_traj \<and>
   length [[11 / 2, 2], [4, 6 :: real]] = nat (NUM_STEPS example_config) \<and>
   list_all (\<lambda>a. length a = nat (NUM_ENVS example_config)) [[11 / 2, 2], [4, 6 :: real]] \<and>
   length [[13 / 2, 4], [9, 12 :: real]] = nat (NUM_STEPS example_config) \<and>
   list_all (\<lambda>a. length a = nat (NUM_ENVS example_config)) [[13 / 2, 4], [9, 12 :: real]] \<and>
   (\<forall>k n. mset (random_permutation example_ext k n) = mset [0..<n]) \<and>
   random_split example_ext 0 = (0, 1) \<and>
   length (epoch_minibatches example_config example_ext example_traj
             [[11 / 2, 2], [4, 6]] [[13 / 2, 4], [9, 12]] 1) = 2 \<and>
   mset (concat (map batch_samples (epoch_minibatches example_config example_ext example_traj
             [[11 / 2, 2], [4, 6]] [[13 / 2, 4], [9, 12]] 1)))
     = mset (batch_samples (flatten_traj example_traj, concat [[11 / 2, 2], [4, 6]],
               concat [[13 / 2, 4], [9, 12]]))"
proof -
  have h1: "MINIBATCH_SIZE example_config * NUM_MINIBATCHES example_config
     = NUM_STEPS example_config * NUM_ENVS example_config"
    and h2: "0 < NUM_MINIBATCHES example_config" and h3: "0 \<le> NUM_STEPS example_config"
    and h4: "0 \<le> NUM_ENVS example_config"
    by (simp_all add: example_config_def)
  have h5: "length example_traj = nat (NUM_STEPS example_config)"
    and h6: "list_all (traj_shaped (nat (NUM_ENVS example_config))) example_traj"
    by (simp_all add: example_config_def example_traj_def traj_shaped_def)
  have h7: "length [[11 / 2, 2], [4, 6 :: real]] = nat (NUM_STEPS example_config)"
    and h8: "list_all (\<lambda>a. length a = nat (NUM_ENVS example_config)) [[11 / 2, 2], [4, 6 :: real]]"
    and h9: "length [[13 / 2, 4], [9, 12 :: real]] = nat (NUM_STEPS example_config)"
    and h10: "list_all (\<lambda>a. length a = nat (NUM_ENVS example_config)) [[13 / 2, 4], [9, 12 :: real]]"
    by (simp_all add: example_config_def)
  have h11: "\<forall>k n. mset (random_permutation example_ext k n) = mset [0..<n]"
    by (simp add: example_ext_def)
  have h12: "random_split example_ext 0 = (0, 1)" by (simp add: example_ext_def)
  have m: "nat (NUM_MINIBATCHES example_config) = 2" by (simp add: example_config_def)
  note S = minibatch_schedule [OF h1 h2 h3 h4 h5 h6 h7 h8 h9 h10 h11 h12,
      of "create example_ext 1"]
  have c1: "length (epoch_minibatches example_config example_ext example_traj
             [[11 / 2, 2], [4, 6]] [[13 / 2, 4], [9, 12]] 1) = 2"
    using S m by simp
  have c2: "mset (concat (map batch_samples (epoch_minibatches example_config example_ext
             example_traj [[11 / 2, 2], [4, 6]] [[13 / 2, 4], [9, 12]] 1)))
     = mset (batch_samples (flatten_traj example_traj, concat [[11 / 2, 2], [4, 6]],
               concat [[13 / 2, 4], [9, 12]]))"
    using S by blast
  show ?thesis using h1 h2 h3 h4 h5 h6 h7 h8 h9 h10 h11 h12 c1 c2 by blast
qed

subsection \<open>Epochs and update steps\<close>

lemma update_epoch_fails:
  assumes "MINIBATCH_SIZE cfg * NUM_MINIBATCHES cfg \<noteq> NUM_STEPS cfg * NUM_ENVS cfg"
  shows "update_epoch cfg ext us u = ([], Inl AssertionError)"
  using assms by (simp add: update_epoch_def Let_def split: prod.splits)

lemma run_epochs_Suc:
  assumes "random_split ext rng = (rng', key)"
  shows "run_epochs cfg ext traj adv tgt (Suc n) ts rng
     = (let r = run_epochs cfg ext traj adv tgt n
                  (fst (scan (update_minbatch cfg ext) ts (epoch_minibatches cfg ext traj adv tgt key)))
                  rng'
        in (fst r, fst (snd r),
            snd (scan (update_minbatch cfg ext) ts (epoch_minibatches cfg ext traj adv tgt key))
              # snd (snd r)))"
  using assms by (simp add: Let_def split: prod.splits)


lemma scan_run_epochs:
  assumes "MINIBATCH_SIZE cfg * NUM_MINIBATCHES cfg = NUM_STEPS cfg * NUM_ENVS cfg"
    and "0 < NUM_MINIBATCHES cfg" and "0 \<le> NUM_STEPS cfg" and "0 \<le> NUM_ENVS cfg"
  shows "scan_run (update_epoch cfg ext) (ts, traj, adv, tgt, rng) (replicate k ())
     = (replicate (k * nat (NUM_MINIBATCHES cfg)) ParamUpdate,
        Inr ((fst (run_epochs cfg ext traj adv tgt k ts rng), traj, adv, tgt,
              fst (snd (run_epochs cfg ext traj adv tgt k ts rng))),
             snd (snd (run_epochs cfg ext traj adv tgt k ts rng))))"
proof (induction k arbitrary: ts rng)
  case 0
  then show ?case by simp
next
  case (Suc k)
  obtain rng1 key where sp: "random_split ext rng = (rng1, key)"
    by (cases "random_split ext rng") auto
  let ?mbs = "epoch_minibatches cfg ext traj adv tgt key"
  let ?ts1 = "fst (scan (update_minbatch cfg ext) ts ?mbs)"
  have e: "update_epoch cfg ext (ts, traj, adv, tgt, rng) ()
       = (replicate (nat (NUM_MINIBATCHES cfg)) ParamUpdate,
          Inr ((?ts1, traj, adv, tgt, rng1), snd (scan (update_minbatch cfg ext) ts ?mbs)))"
    by (rule update_epoch_minibatches[OF assms sp])
  show ?case
    unfolding run_epochs_Suc[OF sp]
    using e Suc.IH[of ?ts1 rng1]
    by (simp add: Let_def replicate_add[symmetric] add.commute)
qed






lemma update_step_epochs:
  assumes "MINIBATCH_SIZE cfg * NUM_MINIBATCHES cfg = NUM_STEPS cfg * NUM_ENVS cfg"
    and "0 < NUM_MINIBATCHES cfg" and "0 \<le> NUM_STEPS cfg" and "0 \<le> NUM_ENVS cfg"
    and "0 \<le> UPDATE_EPOCHS cfg" and "DISABLE_JIT cfg \<Longrightarrow> 0 < UPDATE_EPOCHS cfg"
    and "lax_scan_length (DISABLE_JIT cfg) (env_step cfg ext) runner_state (NUM_STEPS cfg)
           = (ev, Inr ((ts, es, lo, rng), traj))"
    and "calculate_gae cfg traj (fst (snd (network_apply_batch ext (params ts) lo))) = (adv, tgt)"
  shows "update_step cfg ext runner_state u
       = (ev @ replicate (nat (UPDATE_EPOCHS cfg) * nat (NUM_MINIBATCHES cfg)) ParamUpdate,
          Inr ((fst (run_epochs cfg ext traj adv tgt (nat (UPDATE_EPOCHS cfg)) ts rng), es, lo,
                fst (snd (run_epochs cfg ext traj adv tgt (nat (UPDATE_EPOCHS cfg)) ts rng))),
               (map info traj,
                map (map (\<lambda>y. fst (snd (snd (snd (snd y))))))
                  (snd (snd (run_epochs cfg ext traj adv tgt (nat (UPDATE_EPOCHS cfg)) ts rng))),
                map (map (\<lambda>y. snd (snd (snd (snd (snd y))))))
                  (snd (snd (run_epochs cfg ext traj adv tgt (nat (UPDATE_EPOCHS cfg)) ts rng))))))"
proof -
  have e: "lax_scan_length (DISABLE_JIT cfg) (update_epoch cfg ext) (ts, traj, adv, tgt, rng)
             (UPDATE_EPOCHS cfg)
       = (replicate (nat (UPDATE_EPOCHS cfg) * nat (NUM_MINIBATCHES cfg)) ParamUpdate,
          Inr ((fst (run_epochs cfg ext traj adv tgt (nat (UPDATE_EPOCHS cfg)) ts rng), traj, adv, tgt,
                fst (snd (run_epochs cfg ext traj adv tgt (nat (UPDATE_EPOCHS cfg)) ts rng))),
               snd (snd (run_epochs cfg ext traj adv tgt (nat (UPDATE_EPOCHS cfg)) ts rng))))"
  proof -
    have "lax_scan_length (DISABLE_JIT cfg) (update_epoch cfg ext) (ts, traj, adv, tgt, rng)
             (UPDATE_EPOCHS cfg)
        = scan_run (update_epoch cfg ext) (ts, traj, adv, tgt, rng)
            (replicate (nat (UPDATE_EPOCHS cfg)) ())"
      using assms(5,6) by (intro lax_scan_length_ok) simp_all
    then show ?thesis by (simp only: scan_run_epochs[OF assms(1-4)])
  qed
  show ?thesis using assms(7,8) e by (simp add: update_step_def Let_def)
qed

lemma example_rollout_scan:
  "lax_scan_length (DISABLE_JIT example_config) (env_step example_config example_ext)
      (create example_ext 1, 0, [0, 1], 0) (NUM_STEPS example_config)
     = ([EnvStep, EnvStep], Inr ((create example_ext 1, 2, [2, 3], 0), example_rollout))"
  by (simp add: lax_scan_length_def lax_scan_def example_config_def numeral_2_eq_2 env_step_def
      example_ext_def create_def Let_def example_rollout_def)

lemma example_gae_rollout:
  "calculate_gae example_config example_rollout
     (fst (snd (network_apply_batch example_ext (params (create example_ext 1)) [2, 3])))
     = ([[3 / 4, 11 / 8], [1, 3 / 2]], [[3 / 4, 19 / 8], [2, 7 / 2]])"
  by (simp add: calculate_gae_def example_rollout_def example_config_def scan_reverse_def
      get_advantages_def zeros_like_def vadd_def vsub_def vmul_def smul_def one_minus_def
      Let_def example_ext_def create_def)


lemma example_hypotheses:
  "MINIBATCH_SIZE example_config * NUM_MINIBATCHES example_config
     = NUM_STEPS example_config * NUM_ENVS example_config"
  "0 < NUM_MINIBATCHES example_config" "0 \<le> NUM_STEPS example_config"
  "0 \<le> NUM_ENVS example_config" "0 \<le> UPDATE_EPOCHS example_config"
  "DISABLE_JIT example_config \<longrightarrow> 0 < UPDATE_EPOCHS example_config"
  by (simp_all add: example_config_def)

text \<open>
  Claim C8. Within one update step the trajectory is the one the rollout collected and
  the advantages and targets are the ones the estimator computed from it, once: for
  a configuration whose assertion holds, with a positive minibatch count and an epoch
  count the scan accepts, the update step is the run of the epochs on these arrays as
  fixed parameters (\<open>run_epochs\<close>). Whatever the number \<open>k\<close> of epochs already run,
  the state of the epoch loop carries the very same three arrays, and the epoch run
  from that state feeds the update engine the minibatches cut from these arrays
  (\<open>epoch_batches\<close>) and hands the arrays on unchanged.
\<close>

theorem update_step_threads_arrays:
  assumes "MINIBATCH_SIZE cfg * NUM_MINIBATCHES cfg = NUM_STEPS cfg * NUM_ENVS cfg"
    and "0 < NUM_MINIBATCHES cfg" and "0 \<le> NUM_STEPS cfg" and "0 \<le> NUM_ENVS cfg"
    and "0 \<le> UPDATE_EPOCHS cfg" and "DISABLE_JIT cfg \<longrightarrow> 0 < UPDATE_EPOCHS cfg"
    and "lax_scan_length (DISABLE_JIT cfg) (env_step cfg ext) runner_state (NUM_STEPS cfg)
           = (ev, Inr ((train_state, env_state, last_obs, rng), traj_batch))"
    and "calculate_gae cfg traj_batch
           (fst (snd (network_apply_batch ext (params train_state) last_obs)))
           = (advantages, targets)"
  shows "update_step cfg ext runner_state ()
       = (ev @ replicate (nat (UPDATE_EPOCHS cfg) * nat (NUM_MINIBATCHES cfg)) ParamUpdate,
          Inr ((fst (run_epochs cfg ext traj_batch advantages targets (nat (UPDATE_EPOCHS cfg))
                       train_state rng),
                env_state, last_obs,
                fst (snd (run_epochs cfg ext traj_batch advantages targets
                            (nat (UPDATE_EPOCHS cfg)) train_state rng))),
               (map info traj_batch,
                map (map (\<lambda>y. fst (snd (snd (snd (snd y))))))
                  (snd (snd (run_epochs cfg ext traj_batch advantages targets
                               (nat (UPDATE_EPOCHS cfg)) train_state rng))),
                map (map (\<lambda>y. snd (snd (snd (snd (snd y))))))
                  (snd (snd (run_epochs cfg ext traj_batch advantages targets
                               (nat (UPDATE_EPOCHS cfg)) train_state rng))))))
   \<and> (\<forall>k. scan_run (update_epoch cfg ext) (train_state, traj_batch, advantages, targets, rng)
              (replicate k ())
           = (replicate (k * nat (NUM_MINIBATCHES cfg)) ParamUpdate,
              Inr ((fst (run_epochs cfg ext traj_batch advantages targets k train_state rng),
                    traj_batch, advantages, targets,
                    fst (snd (run_epochs cfg ext traj_batch advantages targets k train_state rng))),
                   snd (snd (run_epochs cfg ext traj_batch advantages targets k train_state rng)))))
   \<and> (\<forall>k. update_epoch cfg ext
              (fst (run_epochs cfg ext traj_batch advantages targets k train_state rng),
               traj_batch, advantages, targets,
               fst (snd (run_epochs cfg ext traj_batch advantages targets k train_state rng))) ()
           = (replicate (nat (NUM_MINIBATCHES cfg)) ParamUpdate,
              Inr ((fst (scan (update_minbatch cfg ext)
                           (fst (run_epochs cfg ext traj_batch advantages targets k train_state rng))
                           (epoch_batches cfg ext traj_batch advantages targets train_state rng k)),
                    traj_batch, advantages, targets,
                    fst (random_split ext
                           (fst (snd (run_epochs cfg ext traj_batch advantages targets k
                                        train_state rng))))),
                   snd (scan (update_minbatch cfg ext)
                          (fst (run_epochs cfg ext traj_batch advantages targets k train_state rng))
                          (epoch_batches cfg ext traj_batch advantages targets train_state rng k)))))"
proof (intro conjI allI)
  have e: "DISABLE_JIT cfg \<Longrightarrow> 0 < UPDATE_EPOCHS cfg" using assms(6) by blast
  show "update_step cfg ext runner_state ()
       = (ev @ replicate (nat (UPDATE_EPOCHS cfg) * nat (NUM_MINIBATCHES cfg)) ParamUpdate,
          Inr ((fst (run_epochs cfg ext traj_batch advantages targets (nat (UPDATE_EPOCHS cfg))
                       train_state rng),
                env_state, last_obs,
                fst (snd (run_epochs cfg ext traj_batch advantages targets
                            (nat (UPDATE_EPOCHS cfg)) train_state rng))),
               (map info traj_batch,
                map (map (\<lambda>y. fst (snd (snd (snd (snd y))))))
                  (snd (snd (run_epochs cfg ext traj_batch advantages targets
                               (nat (UPDATE_EPOCHS cfg)) train_state rng))),
                map (map (\<lambda>y. snd (snd (snd (snd (snd y))))))
                  (snd (snd (run_epochs cfg ext traj_batch advantages targets
                               (nat (UPDATE_EPOCHS cfg)) train_state rng))))))"
    by (rule update_step_epochs[OF assms(1-5) e assms(7,8)])
next
  fix k
  show "scan_run (update_epoch cfg ext) (train_state, traj_batch, advantages, targets, rng)
              (replicate k ())
           = (replicate (k * nat (NUM_MINIBATCHES cfg)) ParamUpdate,
              Inr ((fst (run_epochs cfg ext traj_batch advantages targets k train_state rng),
                    traj_batch, advantages, targets,
                    fst (snd (run_epochs cfg ext traj_batch advantages targets k train_state rng))),
                   snd (snd (run_epochs cfg ext traj_batch advantages targets k train_state rng))))"
    by (rule scan_run_epochs[OF assms(1-4)])
next
  fix k
  let ?r = "fst (snd (run_epochs cfg ext traj_batch advantages targets k train_state rng))"
  have sp: "random_split ext ?r = (fst (random_split ext ?r), snd (random_split ext ?r))"
    by simp
  show "update_epoch cfg ext
              (fst (run_epochs cfg ext traj_batch advantages targets k train_state rng),
               traj_batch, advantages, targets, ?r) ()
           = (replicate (nat (NUM_MINIBATCHES cfg)) ParamUpdate,
              Inr ((fst (scan (update_minbatch cfg ext)
                           (fst (run_epochs cfg ext traj_batch advantages targets k train_state rng))
                           (epoch_batches cfg ext traj_batch advantages targets train_state rng k)),
                    traj_batch, advantages, targets,
                    fst (random_split ext ?r)),
                   snd (scan (update_minbatch cfg ext)
                          (fst (run_epochs cfg ext traj_batch advantages targets k train_state rng))
                          (epoch_batches cfg ext traj_batch advantages targets train_state rng k))))"
    unfolding epoch_batches_def epoch_key_def
    by (rule update_epoch_minibatches[OF assms(1-4) sp])
qed


theorem update_step_threads_arrays_witness:
  "MINIBATCH_SIZE example_config * NUM_MINIBATCHES example_config
     = NUM_STEPS example_config * NUM_ENVS example_config \<and>
   0 < NUM_MINIBATCHES example_config \<and> 0 \<le> NUM_STEPS example_config \<and>
   0 \<le> NUM_ENVS example_config \<and> 0 \<le> UPDATE_EPOCHS example_config \<and>
   \<not> DISABLE_JIT example_config \<and>
   lax_scan_length (DISABLE_JIT example_config) (env_step example_config example_ext)
      (create example_ext 1, 0, [0, 1], 0) (NUM_STEPS example_config)
     = ([EnvStep, EnvStep], Inr ((create example_ext 1, 2, [2, 3], 0), example_rollout)) \<and>
   calculate_gae example_config example_rollout
     (fst (snd (network_apply_batch example_ext (params (create example_ext 1)) [2, 3])))
     = ([[3 / 4, 11 / 8], [1, 3 / 2]], [[3 / 4, 19 / 8], [2, 7 / 2]]) \<and>
   fst (update_step example_config example_ext (create example_ext 1, 0, [0, 1], 0) ())
     = [EnvStep, EnvStep, ParamUpdate, ParamUpdate] \<and>
   (\<exists>ts' rng' li.
      scan_run (update_epoch example_config example_ext)
        (create example_ext 1, example_rollout,
         [[3 / 4, 11 / 8], [1, 3 / 2]], [[3 / 4, 19 / 8], [2, 7 / 2]], 0) (replicate 3 ())
      = (replicate 6 ParamUpdate,
         Inr ((ts', example_rollout, [[3 / 4, 11 / 8], [1, 3 / 2]], [[3 / 4, 19 / 8], [2, 7 / 2]],
               rng'), li)))"
proof -
  note h = example_hypotheses
  have j: "\<not> DISABLE_JIT example_config" by (simp add: example_config_def)
  note T = update_step_threads_arrays [OF h example_rollout_scan example_gae_rollout]
  have n: "nat (UPDATE_EPOCHS example_config) * nat (NUM_MINIBATCHES example_config) = 2"
    "3 * nat (NUM_MINIBATCHES example_config) = 6"
    by (simp_all add: example_config_def)
  have a: "fst (update_step example_config example_ext (create example_ext 1, 0, [0, 1], 0) ())
     = [EnvStep, EnvStep, ParamUpdate, ParamUpdate]"
    using T n(1) by (simp add: numeral_2_eq_2)
  have "scan_run (update_epoch example_config example_ext)
        (create example_ext 1, example_rollout,
         [[3 / 4, 11 / 8], [1, 3 / 2]], [[3 / 4, 19 / 8], [2, 7 / 2]], 0) (replicate 3 ())
      = (replicate (3 * nat (NUM_MINIBATCHES example_config)) ParamUpdate,
         Inr ((fst (run_epochs example_config example_ext example_rollout
                      [[3 / 4, 11 / 8], [1, 3 / 2]] [[3 / 4, 19 / 8], [2, 7 / 2]] 3
                      (create example_ext 1) 0),
               example_rollout, [[3 / 4, 11 / 8], [1, 3 / 2]], [[3 / 4, 19 / 8], [2, 7 / 2]],
               fst (snd (run_epochs example_config example_ext example_rollout
                      [[3 / 4, 11 / 8], [1, 3 / 2]] [[3 / 4, 19 / 8], [2, 7 / 2]] 3
                      (create example_ext 1) 0))),
              snd (snd (run_epochs example_config example_ext example_rollout
                      [[3 / 4, 11 / 8], [1, 3 / 2]] [[3 / 4, 19 / 8], [2, 7 / 2]] 3
                      (create example_ext 1) 0))))"
    using T by blast
  then have b: "\<exists>ts' rng' li.
      scan_run (update_epoch example_config example_ext)
        (create example_ext 1, example_rollout,
         [[3 / 4, 11 / 8], [1, 3 / 2]], [[3 / 4, 19 / 8], [2, 7 / 2]], 0) (replicate 3 ())
      = (replicate 6 ParamUpdate,
         Inr ((ts', example_rollout, [[3 / 4, 11 / 8], [1, 3 / 2]], [[3 / 4, 19 / 8], [2, 7 / 2]],
               rng'), li))"
    unfolding n(2) by blast
  show ?thesis using h(1-5) j example_rollout_scan example_gae_rollout a b by blast
qed

subsection \<open>The reported diagnostics\<close>









subsection \<open>The first minibatch of an update step\<close>


















end
